theory Spec2Isabelle
  imports Main
begin

section \<open>Strings\<close>

text \<open>
  Go strings are byte sequences; they are modelled as \<open>string\<close> (a list of 8-bit
  characters). The three functions of Go's \<open>strings\<close> package that the program calls
  are written out for the arguments the program passes: \<open>strings.HasPrefix\<close>,
  \<open>strings.Split\<close> with a separator of one byte, and \<open>strings.Join\<close>.
\<close>

definition HasPrefix :: "string \<Rightarrow> string \<Rightarrow> bool" where
  "HasPrefix s p = (take (length p) s = p)"

text \<open>
  \<open>strings.Split(s, sep)\<close> for a one-byte \<open>sep\<close>: the pieces of \<open>s\<close> between the
  occurrences of \<open>sep\<close>, in order; \<open>n\<close> occurrences give \<open>n + 1\<close> pieces, and the
  empty string gives the one piece \<open>""\<close>.
\<close>

fun strings_Split :: "string \<Rightarrow> char \<Rightarrow> string list" where
  "strings_Split [] c = [[]]"
| "strings_Split (x # xs) c =
     (if x = c then [] # strings_Split xs c
      else (case strings_Split xs c of
              [] \<Rightarrow> [[x]]
            | y # ys \<Rightarrow> (x # y) # ys))"

fun strings_Join :: "string list \<Rightarrow> string \<Rightarrow> string" where
  "strings_Join [] sep = []"
| "strings_Join [x] sep = x"
| "strings_Join (x # y # ys) sep = x @ sep @ strings_Join (y # ys) sep"

definition newline :: char where
  "newline = CHR 0x0A"

definition apostrophe :: string where
  "apostrophe = [CHR 0x27]"

section \<open>Profiles\<close>

text \<open>The struct \<open>Profile\<close> of both source files.\<close>

record Profile =
  Name :: string
  Proxy :: string
  ProxyType :: string
  Flags :: string

section \<open>The launch arguments\<close>

text \<open>
  \<open>launchBrowser\<close> builds its argument list in the local variable \<open>cmdArgs\<close>. The
  list depends on the profile and on \<open>profilePath\<close> only, so the construction is the
  function \<open>cmdArgs\<close> below, statement by statement; \<open>launchBrowser\<close> (further down)
  calls it. The two loops that append to the slice are \<open>append_flags\<close> (the loop over
  the pieces of the flags string, which skips empty pieces) and \<open>append_each\<close> (the
  loop over \<open>standardFlags\<close>).
\<close>

fun append_flags :: "string list \<Rightarrow> string list \<Rightarrow> string list" where
  "append_flags args [] = args"
| "append_flags args (flag # rest) =
     append_flags (if flag \<noteq> [] then args @ [flag] else args) rest"

fun append_each :: "string list \<Rightarrow> string list \<Rightarrow> string list" where
  "append_each args [] = args"
| "append_each args (flag # rest) = append_each (args @ [flag]) rest"

text \<open>The slice \<open>standardFlags\<close> of \<open>main.go\<close>.\<close>

definition standardFlags :: "string list" where
  "standardFlags =
    [''--disable-logging'',
     ''--disable-breakpad'',
     ''--disable-infobars'',
     ''--disable-notifications'',
     ''--no-default-browser-check'',
     ''--silent-launch'',
     ''--disable-gpu'',
     ''--disable-gpu-compositing'',
     ''--disable-gpu-sandbox'',
     ''--disable-gpu-driver-bug-workarounds'',
     ''--disable-features=UseChromeOSDirectVideoDecoder'',
     ''--disable-accelerated-2d-canvas'',
     ''--disable-accelerated-video-decode'',
     ''--disable-accelerated-video-encode'',
     ''--disable-webgl'',
     ''--disable-threaded-animation'',
     ''--disable-webgl-image-chromium'',
     ''--force-dark-mode'',
     ''--ignore-certificate-errors'']"

text \<open>The slice \<open>standardFlags\<close> of the second source file (\<open>part_000\<close>).\<close>

definition standardFlags_part_000 :: "string list" where
  "standardFlags_part_000 =
    [''--disable-logging'',
     ''--disable-breakpad'',
     ''--disable-infobars'',
     ''--disable-notifications'',
     ''--no-default-browser-check'',
     ''--silent-launch'',
     ''--disable-gpu'',
     ''--disable-gpu-compositing'',
     ''--disable-gpu-sandbox'',
     ''--disable-gpu-driver-bug-workarounds'',
     ''--disable-features=UseChromeOSDirectVideoDecoder'',
     ''--disable-accelerated-2d-canvas'',
     ''--disable-accelerated-video-decode'',
     ''--disable-accelerated-video-encode'',
     ''--disable-webgl'',
     ''--disable-threaded-animation'',
     ''--disable-webgl-image-chromium'',
     ''--force-dark-mode'']"

text \<open>
  The part of \<open>launchBrowser\<close> from \<open>cmdArgs := []string{}\<close> to the end of the loop
  over the standard flags. The text is the same in both files; the parameter \<open>std\<close> is
  the file's own \<open>standardFlags\<close>.
\<close>

definition build_cmdArgs :: "string list \<Rightarrow> string \<Rightarrow> Profile \<Rightarrow> string list" where
  "build_cmdArgs std profilePath profile =
    (let args = [];
         args = args @ [''--user-data-dir='' @ profilePath];
         args = args @ [''--new-window''];
         args = args @ [''about:blank''];
         args =
           (if Proxy profile \<noteq> ''none'' then
              (let proxyFlag = ''--proxy-server='';
                   proxyFlag =
                     (if ProxyType profile = ''http'' then proxyFlag @ ''http://''
                      else proxyFlag);
                   proxyFlag = proxyFlag @ Proxy profile
               in args @ [proxyFlag])
            else args);
         args =
           (if Flags profile \<noteq> [] then
              append_flags args (strings_Split (Flags profile) CHR '' '')
            else args)
     in append_each args std)"

definition cmdArgs :: "string \<Rightarrow> Profile \<Rightarrow> string list" where
  "cmdArgs = build_cmdArgs standardFlags"

definition cmdArgs_part_000 :: "string \<Rightarrow> Profile \<Rightarrow> string list" where
  "cmdArgs_part_000 = build_cmdArgs standardFlags_part_000"

text \<open>The specification's words for steps 3 and 4 of the builder.\<close>

definition proxy_segment :: "Profile \<Rightarrow> string list" where
  "proxy_segment profile =
    (if Proxy profile \<noteq> ''none''
     then [''--proxy-server='' @ (if ProxyType profile = ''http'' then ''http://'' else []) @
           Proxy profile]
     else [])"

definition flag_tokens :: "Profile \<Rightarrow> string list" where
  "flag_tokens profile = filter (\<lambda>t. t \<noteq> []) (strings_Split (Flags profile) CHR '' '')"

text \<open>A profile without a proxy whose flags string carries a proxy flag of its own.\<close>

definition tor_in_flags :: Profile where
  "tor_in_flags =
    \<lparr>Name = ''tor'', Proxy = ''none'', ProxyType = ''none'',
     Flags = ''--incognito --proxy-server=socks5://127.0.0.1:9050''\<rparr>"

section \<open>The operating system\<close>

text \<open>
  The program reads and writes one store file (\<open>cm.configFile\<close>), creates
  directories, writes seed and launcher files, removes directory entries and starts
  processes. The state of the store file is kept in \<open>store\<close> (\<open>None\<close> when the file
  does not exist); every other effect is recorded, in order, in \<open>effects\<close>.
\<close>

datatype effect =
    MkdirAll string
  | WriteFile string string
  | RemoveAll string
  | Start string "string list"

record os_state =
  store :: "string option"
  effects :: "effect list"

text \<open>The list widget of the UI library, reduced to what the program reads and sets.\<close>

record item =
  title :: string
  desc :: string

record list_Model =
  Items :: "item list option"
  Index :: nat
  Width :: int
  Height :: int

datatype KeyType = KeyCtrlC | KeyEsc | KeyEnter | KeyBackspace | KeyRunes | KeyOther

text \<open>
  A message of the UI library. A key message carries its type and the text that
  \<open>msg.String()\<close> returns for it.
\<close>

datatype Msg = WindowSizeMsg int int | KeyMsg KeyType string | OtherMsg

datatype Cmd = CmdNil | CmdQuit | CmdOfList nat

text \<open>
  The struct \<open>ChromiumManager\<close>: the profile map, the paths and the state of the
  views. The second source file (\<open>part_000\<close>) has the same struct and, line for line,
  the same \<open>loadProfiles\<close>, \<open>saveProfiles\<close> and \<open>Update\<close> as \<open>main.go\<close>; the two
  files differ in \<open>standardFlags\<close>, in the launch attempts after the argument list is
  built, and in \<open>main\<close>.
\<close>

record ChromiumManager =
  profiles :: "string \<rightharpoonup> Profile"
  configFile :: string
  chromePath :: string
  profileDir :: string
  currentView :: string
  mainList :: list_Model
  profileList :: list_Model
  manageList :: list_Model
  message :: string
  selected :: string
  profileName :: string
  profileProxy :: string
  profileType :: string
  profileFlags :: string
  err :: "string option"

text \<open>
  What the program does not compute itself is a parameter of the model: the results of
  library and system calls. \<open>range_keys\<close> is the order in which a \<open>range\<close> loop
  visits the keys of the profile map (Go leaves it unspecified); \<open>flag_Parse\<close> is the
  \<open>Parse\<close> of a flag set created with \<open>flag.ExitOnError\<close>: it either exits the
  process with a status (\<open>Inl\<close>) or returns, and then \<open>Inr\<close> holds the value of
  \<open>-profile\<close>; \<open>tea_Run\<close> is the error of the interactive program's \<open>Run\<close>.
  \<open>IsNotExist path\<close> is \<open>os.IsNotExist\<close> of the error of \<open>os.Stat(path)\<close>, for
  every path but the store file; the fields \<open>*_err\<close> are the errors of the calls
  (\<open>None\<close> is \<open>nil\<close>); \<open>store_writable\<close> and \<open>store_readable\<close> say whether
  writing and reading the store file succeed; \<open>list_Update\<close> is the \<open>Update\<close> of the
  list widget. The functions \<open>detectPlatform\<close> and \<open>setProfilePath\<close> of \<open>main.go\<close>
  are never called and have no part in the model.
\<close>

record os_env =
  Join :: "string \<Rightarrow> string \<Rightarrow> string"
  GOOS :: string
  TempDir :: string
  UserHomeDir :: string
  IsNotExist :: "string \<Rightarrow> bool"
  store_writable :: bool
  store_readable :: bool
  WriteFile_err :: "string \<Rightarrow> string option"
  ReadDir :: "string \<Rightarrow> string + string list"
  RemoveAll_err :: "string \<Rightarrow> string option"
  Start_err :: "string \<Rightarrow> string list \<Rightarrow> string option"
  range_keys :: "(string \<rightharpoonup> Profile) \<Rightarrow> string list"
  list_Update :: "Msg \<Rightarrow> list_Model \<Rightarrow> list_Model \<times> Cmd"
  flag_Parse :: "string \<Rightarrow> string list \<Rightarrow> nat + string"
  tea_Run :: "ChromiumManager \<Rightarrow> os_state \<Rightarrow> string option \<times> os_state"

definition do_effect :: "effect \<Rightarrow> os_state \<Rightarrow> os_state" where
  "do_effect e w = w\<lparr>effects := effects w @ [e]\<rparr>"

text \<open>\<open>ioutil.WriteFile(cm.configFile, ...)\<close>; its error is ignored by every caller.\<close>

definition store_WriteFile :: "os_env \<Rightarrow> string \<Rightarrow> os_state \<Rightarrow> os_state" where
  "store_WriteFile env content w =
    (if store_writable env then w\<lparr>store := Some content\<rparr> else w)"

text \<open>\<open>ioutil.ReadFile(cm.configFile)\<close>: \<open>None\<close> is an error.\<close>

definition store_ReadFile :: "os_env \<Rightarrow> os_state \<Rightarrow> string option" where
  "store_ReadFile env w = (if store_readable env then store w else None)"

definition list_zero :: list_Model where
  "list_zero = \<lparr>Items = None, Index = 0, Width = 0, Height = 0\<rparr>"

definition list_New :: "item list \<Rightarrow> int \<Rightarrow> int \<Rightarrow> list_Model" where
  "list_New its w h = \<lparr>Items = Some its, Index = 0, Width = w, Height = h\<rparr>"

definition SelectedItem :: "list_Model \<Rightarrow> item option" where
  "SelectedItem l =
    (case Items l of
       None \<Rightarrow> None
     | Some its \<Rightarrow> (if Index l < length its then Some (its ! Index l) else None))"

definition SetSize :: "int \<Rightarrow> int \<Rightarrow> list_Model \<Rightarrow> list_Model" where
  "SetSize w h l = l\<lparr>Width := w, Height := h\<rparr>"

section \<open>The manager and the profile store\<close>

text \<open>\<open>fmt.Sprintf("%s|%s|%s|%s\n", ...)\<close> on the four fields of a profile.\<close>

definition profile_line :: "Profile \<Rightarrow> string" where
  "profile_line p =
    Name p @ ''|'' @ Proxy p @ ''|'' @ ProxyType p @ ''|'' @ Flags p @ [newline]"

fun concat_lines :: "string \<Rightarrow> Profile list \<Rightarrow> string" where
  "concat_lines content [] = content"
| "concat_lines content (p # ps) = concat_lines (content @ profile_line p) ps"

definition defaults :: "Profile list" where
  "defaults =
    [\<lparr>Name = ''default'', Proxy = ''none'', ProxyType = ''none'',
      Flags = ''--no-first-run --disable-features=RendererCodeIntegrity''\<rparr>,
     \<lparr>Name = ''clean'', Proxy = ''none'', ProxyType = ''none'',
      Flags = ''--no-first-run --disable-features=RendererCodeIntegrity,UseChromeOSDirectVideoDecoder --disable-gpu-driver-bug-workarounds --ignore-gpu-blacklist --disable-gpu-compositing --disable-infobars''\<rparr>]"

definition updateProfileList :: "os_env \<Rightarrow> ChromiumManager \<Rightarrow> ChromiumManager" where
  "updateProfileList env cm =
    cm\<lparr>profileList :=
         list_New (map (\<lambda>name. \<lparr>title = name, desc = []\<rparr>) (range_keys env (profiles cm)))
           80 24\<rparr>"

definition updateManageList :: "ChromiumManager \<Rightarrow> ChromiumManager" where
  "updateManageList cm =
    cm\<lparr>manageList :=
         list_New
           [\<lparr>title = ''Add New Profile'', desc = ''Create a new browser profile''\<rparr>,
            \<lparr>title = ''Edit Profile'', desc = ''Modify an existing profile''\<rparr>,
            \<lparr>title = ''Delete Profile'', desc = ''Remove a profile''\<rparr>]
           80 24\<rparr>"

text \<open>
  The loop of \<open>loadProfiles\<close> over the lines of the file: a line that is empty or
  starts with \<open>#\<close> is passed over (\<open>continue\<close>); any other line is split at \<open>|\<close> and,
  when it has at least four parts, stored under its first part.
\<close>

fun load_lines :: "(string \<rightharpoonup> Profile) \<Rightarrow> string list \<Rightarrow> (string \<rightharpoonup> Profile)" where
  "load_lines m [] = m"
| "load_lines m (line # rest) =
     (if line = [] \<or> HasPrefix line ''#'' then load_lines m rest
      else
        (let parts = strings_Split line CHR ''|'' in
         if length parts \<ge> 4 then
           load_lines
             (m(parts ! 0 \<mapsto>
                \<lparr>Name = parts ! 0, Proxy = parts ! 1, ProxyType = parts ! 2,
                 Flags = parts ! 3\<rparr>))
             rest
         else load_lines m rest))"

definition loadProfiles :: "os_env \<Rightarrow> ChromiumManager \<Rightarrow> os_state \<Rightarrow> ChromiumManager \<times> os_state" where
  "loadProfiles env cm w =
    (let w = (if store w = None then store_WriteFile env (concat_lines [] defaults) w else w)
     in case store_ReadFile env w of
          None \<Rightarrow> (cm, w)
        | Some data \<Rightarrow>
            (updateProfileList env
               (cm\<lparr>profiles := load_lines (profiles cm) (strings_Split data newline)\<rparr>),
             w))"

text \<open>
  \<open>saveProfiles\<close>: the \<open>range\<close> loop visits the values of the map in the order
  \<open>range_keys\<close> gives for their keys.
\<close>

definition saveProfiles :: "os_env \<Rightarrow> ChromiumManager \<Rightarrow> os_state \<Rightarrow> os_state" where
  "saveProfiles env cm w =
    store_WriteFile env
      (concat_lines [] (List.map_filter (profiles cm) (range_keys env (profiles cm)))) w"

text \<open>A \<open>range\<close> order is an enumeration of the keys of the map, each once.\<close>

definition range_ok :: "os_env \<Rightarrow> (string \<rightharpoonup> Profile) \<Rightarrow> bool" where
  "range_ok env m = (distinct (range_keys env m) \<and> set (range_keys env m) = dom m)"

section \<open>Launching the browser\<close>

text \<open>
  \<open>exec.Command(name, args...).Start()\<close>: the attempt is recorded, its error comes
  from the environment.
\<close>

definition exec_Start :: "os_env \<Rightarrow> string \<Rightarrow> string list \<Rightarrow> os_state \<Rightarrow> string option \<times> os_state" where
  "exec_Start env name args w = (Start_err env name args, do_effect (Start name args) w)"

text \<open>
  The three branches of the \<open>switch runtime.GOOS\<close> of \<open>launchBrowser\<close>. Each gives
  either the message of an early \<open>return\<close> (\<open>Inl\<close>) or the value of the variable
  \<open>err\<close> after the branch (\<open>Inr\<close>).
\<close>

definition launch_darwin :: "os_env \<Rightarrow> string \<Rightarrow> string list \<Rightarrow> os_state \<Rightarrow> (string + string option) \<times> os_state" where
  "launch_darwin env chrome args w =
    (case exec_Start env chrome args w of
       (None, w) \<Rightarrow> (Inr None, w)
     | (Some e, w) \<Rightarrow>
         (let scriptPath = Join env (TempDir env) ''launch_chrome.sh'';
              scriptContent =
                ''#!/bin/bash'' @ [newline] @ chrome @ '' '' @ strings_Join args '' '' @
                '' &'' @ [newline];
              w = do_effect (WriteFile scriptPath scriptContent) w
          in case WriteFile_err env scriptPath of
               Some e \<Rightarrow> (Inl (''Error creating launcher script: '' @ e), w)
             | None \<Rightarrow>
                 (case exec_Start env ''/bin/bash'' [scriptPath] w of
                    (None, w) \<Rightarrow> (Inr None, w)
                  | (Some e, w) \<Rightarrow>
                      (case exec_Start env ''open'' ([chrome, ''--args''] @ args) w of
                         (er, w) \<Rightarrow> (Inr er, w)))))"

text \<open>
  In the Linux branch the \<open>err\<close> that the start of \<open>xdg-open\<close> assigns is the one
  declared by the \<open>if err := ioutil.WriteFile(...)\<close> around it, so the function's own
  \<open>err\<close> keeps the error of the \<open>nohup\<close> attempt.
\<close>

definition launch_linux :: "os_env \<Rightarrow> string \<Rightarrow> string list \<Rightarrow> os_state \<Rightarrow> (string + string option) \<times> os_state" where
  "launch_linux env chrome args w =
    (case exec_Start env chrome args w of
       (None, w) \<Rightarrow> (Inr None, w)
     | (Some e, w) \<Rightarrow>
         (case exec_Start env ''nohup'' (chrome # args) w of
            (None, w) \<Rightarrow> (Inr None, w)
          | (Some e, w) \<Rightarrow>
              (let desktopPath = Join env (TempDir env) ''launchium_chrome.desktop'';
                   desktopContent =
                     ''[Desktop Entry]'' @ [newline] @ ''Type=Application'' @ [newline] @
                     ''Name=Launchium Chrome'' @ [newline] @ ''Exec='' @ chrome @ '' '' @
                     strings_Join args '' '' @ [newline] @ ''Terminal=false'';
                   w = do_effect (WriteFile desktopPath desktopContent) w
               in case WriteFile_err env desktopPath of
                    None \<Rightarrow> (Inr (Some e), snd (exec_Start env ''xdg-open'' [desktopPath] w))
                  | Some _ \<Rightarrow> (Inr (Some e), w))))"

definition launch_default :: "os_env \<Rightarrow> string \<Rightarrow> string list \<Rightarrow> os_state \<Rightarrow> (string + string option) \<times> os_state" where
  "launch_default env chrome args w =
    (case exec_Start env chrome args w of (er, w) \<Rightarrow> (Inr er, w))"

definition prefsData :: string where
  \<open>prefsData = ''{"browser":{"enabled_labs_experiments":["ignore-gpu-blocklist@1"]},"distribution":{"suppress_first_run_bubble":true,"suppress_api_keys_warning":true}}''\<close>

definition launchBrowser :: "os_env \<Rightarrow> ChromiumManager \<Rightarrow> string \<Rightarrow> os_state \<Rightarrow> string \<times> os_state" where
  "launchBrowser env cm pn w =
    (case profiles cm pn of
       None \<Rightarrow> (''Profile '' @ apostrophe @ pn @ apostrophe @ '' not found'', w)
     | Some profile \<Rightarrow>
         (let profilePath = Join env (profileDir cm) (Name profile);
              w = do_effect (MkdirAll profilePath) w;
              prefsFile = Join env profilePath ''Local State'';
              w = (if IsNotExist env prefsFile
                   then do_effect (WriteFile prefsFile prefsData) w else w);
              args = cmdArgs profilePath profile
          in case (if GOOS env = ''darwin'' then launch_darwin env (chromePath cm) args w
                   else if GOOS env = ''linux'' then launch_linux env (chromePath cm) args w
                   else launch_default env (chromePath cm) args w) of
               (Inl early, w) \<Rightarrow> (early, w)
             | (Inr (Some e), w) \<Rightarrow> (''Error launching browser: '' @ e, w)
             | (Inr None, w) \<Rightarrow> (''Launched with profile: '' @ Name profile, w)))"

section \<open>Emptying a profile directory\<close>

text \<open>
  The loop \<open>for _, file := range files\<close> with \<open>os.RemoveAll\<close>, which both the
  interactive view and the \<open>clean\<close> subcommand run: it stops at the first error and
  gives it back.
\<close>

fun remove_files :: "os_env \<Rightarrow> string \<Rightarrow> string list \<Rightarrow> os_state \<Rightarrow> string option \<times> os_state" where
  "remove_files env profilePath [] w = (None, w)"
| "remove_files env profilePath (file # rest) w =
     (let filePath = Join env profilePath file;
          w = do_effect (RemoveAll filePath) w
      in case RemoveAll_err env filePath of
           Some e \<Rightarrow> (Some e, w)
         | None \<Rightarrow> remove_files env profilePath rest w)"

text \<open>The struct literal with which \<open>initialModel\<close> starts: an empty map, the view \<open>main\<close>.\<close>

definition new_manager :: ChromiumManager where
  "new_manager =
    \<lparr>profiles = Map.empty, configFile = [], chromePath = [], profileDir = [],
     currentView = ''main'', mainList = list_zero, profileList = list_zero,
     manageList = list_zero, message = [], selected = [], profileName = [],
     profileProxy = [], profileType = [], profileFlags = [], err = None\<rparr>"

section \<open>The views\<close>

text \<open>
  \<open>Update\<close> is one \<open>switch\<close> over \<open>cm.currentView\<close>; each case is one definition
  below, in the order of the source. The three functions \<open>update_*List\<close> are the
  statements \<open>cm.xList, cmd = cm.xList.Update(msg); return cm, cmd\<close> that end the list
  views.
\<close>

definition update_mainList :: "os_env \<Rightarrow> Msg \<Rightarrow> ChromiumManager \<Rightarrow> os_state \<Rightarrow> (ChromiumManager \<times> os_state) \<times> Cmd" where
  "update_mainList env msg cm w =
    (case list_Update env msg (mainList cm) of (l, c) \<Rightarrow> ((cm\<lparr>mainList := l\<rparr>, w), c))"

definition update_profileList :: "os_env \<Rightarrow> Msg \<Rightarrow> ChromiumManager \<Rightarrow> os_state \<Rightarrow> (ChromiumManager \<times> os_state) \<times> Cmd" where
  "update_profileList env msg cm w =
    (case list_Update env msg (profileList cm) of (l, c) \<Rightarrow> ((cm\<lparr>profileList := l\<rparr>, w), c))"

definition update_manageList :: "os_env \<Rightarrow> Msg \<Rightarrow> ChromiumManager \<Rightarrow> os_state \<Rightarrow> (ChromiumManager \<times> os_state) \<times> Cmd" where
  "update_manageList env msg cm w =
    (case list_Update env msg (manageList cm) of (l, c) \<Rightarrow> ((cm\<lparr>manageList := l\<rparr>, w), c))"

definition view_main :: "os_env \<Rightarrow> Msg \<Rightarrow> KeyType \<Rightarrow> ChromiumManager \<Rightarrow> os_state \<Rightarrow> (ChromiumManager \<times> os_state) \<times> Cmd" where
  "view_main env msg kt cm w =
    (if kt = KeyEnter then
       (case SelectedItem (mainList cm) of
          None \<Rightarrow> update_mainList env msg cm w
        | Some i \<Rightarrow>
            (if title i = ''Launch Browser'' then
               update_mainList env msg
                 ((updateProfileList env cm)\<lparr>currentView := ''select_profile''\<rparr>) w
             else if title i = ''Manage Profiles'' then
               update_mainList env msg ((updateManageList cm)\<lparr>currentView := ''manage''\<rparr>) w
             else if title i = ''Clean Profile'' then
               update_mainList env msg
                 ((updateProfileList env cm)\<lparr>currentView := ''select_clean''\<rparr>) w
             else if title i = ''Quit'' then ((cm, w), CmdQuit)
             else update_mainList env msg cm w))
     else update_mainList env msg cm w)"

definition view_select_profile :: "os_env \<Rightarrow> Msg \<Rightarrow> KeyType \<Rightarrow> ChromiumManager \<Rightarrow> os_state \<Rightarrow> (ChromiumManager \<times> os_state) \<times> Cmd" where
  "view_select_profile env msg kt cm w =
    (if kt = KeyEnter then
       (case SelectedItem (profileList cm) of
          None \<Rightarrow> update_profileList env msg cm w
        | Some i \<Rightarrow>
            (case launchBrowser env cm (title i) w of
               (result, w) \<Rightarrow>
                 update_profileList env msg (cm\<lparr>message := result, currentView := ''main''\<rparr>) w))
     else update_profileList env msg cm w)"

definition view_manage :: "os_env \<Rightarrow> Msg \<Rightarrow> KeyType \<Rightarrow> ChromiumManager \<Rightarrow> os_state \<Rightarrow> (ChromiumManager \<times> os_state) \<times> Cmd" where
  "view_manage env msg kt cm w =
    (if kt = KeyEnter then
       (case SelectedItem (manageList cm) of
          None \<Rightarrow> update_manageList env msg cm w
        | Some i \<Rightarrow>
            (if title i = ''Add New Profile'' then
               update_manageList env msg
                 (cm\<lparr>currentView := ''add_profile'',
                     profileName := [],
                     profileProxy := ''none'',
                     profileType := ''none'',
                     profileFlags := ''--no-first-run --disable-features=RendererCodeIntegrity''\<rparr>)
                 w
             else if title i = ''Edit Profile'' then
               update_manageList env msg
                 ((updateProfileList env cm)\<lparr>currentView := ''select_edit''\<rparr>) w
             else if title i = ''Delete Profile'' then
               update_manageList env msg
                 ((updateProfileList env cm)\<lparr>currentView := ''select_delete''\<rparr>) w
             else update_manageList env msg cm w))
     else update_manageList env msg cm w)"

text \<open>Reading a key that the map does not have gives the zero \<open>Profile\<close>.\<close>

definition profile_or_zero :: "(string \<rightharpoonup> Profile) \<Rightarrow> string \<Rightarrow> Profile" where
  "profile_or_zero m k =
    (case m k of
       Some p \<Rightarrow> p
     | None \<Rightarrow> \<lparr>Name = [], Proxy = [], ProxyType = [], Flags = []\<rparr>)"

definition view_select_edit :: "os_env \<Rightarrow> Msg \<Rightarrow> KeyType \<Rightarrow> ChromiumManager \<Rightarrow> os_state \<Rightarrow> (ChromiumManager \<times> os_state) \<times> Cmd" where
  "view_select_edit env msg kt cm w =
    (if kt = KeyEnter then
       (case SelectedItem (profileList cm) of
          None \<Rightarrow> update_profileList env msg cm w
        | Some i \<Rightarrow>
            (let profile = profile_or_zero (profiles cm) (title i) in
             update_profileList env msg
               (cm\<lparr>profileName := Name profile,
                   profileProxy := Proxy profile,
                   profileType := ProxyType profile,
                   profileFlags := Flags profile,
                   selected := title i,
                   currentView := ''edit_profile''\<rparr>)
               w))
     else update_profileList env msg cm w)"

definition view_select_delete :: "os_env \<Rightarrow> Msg \<Rightarrow> KeyType \<Rightarrow> ChromiumManager \<Rightarrow> os_state \<Rightarrow> (ChromiumManager \<times> os_state) \<times> Cmd" where
  "view_select_delete env msg kt cm w =
    (if kt = KeyEnter then
       (case SelectedItem (profileList cm) of
          None \<Rightarrow> update_profileList env msg cm w
        | Some i \<Rightarrow>
            update_profileList env msg
              (cm\<lparr>selected := title i, currentView := ''confirm_delete''\<rparr>) w)
     else update_profileList env msg cm w)"

definition view_confirm_delete :: "os_env \<Rightarrow> string \<Rightarrow> ChromiumManager \<Rightarrow> os_state \<Rightarrow> (ChromiumManager \<times> os_state) \<times> Cmd" where
  "view_confirm_delete env ks cm w =
    (if ks = ''y'' \<or> ks = ''Y'' then
       (let cm = cm\<lparr>profiles := (profiles cm)(selected cm := None)\<rparr>;
            w = saveProfiles env cm w;
            cm = cm\<lparr>message := ''Profile '' @ apostrophe @ selected cm @ apostrophe @ '' deleted''\<rparr>;
            cm = cm\<lparr>currentView := ''main''\<rparr>
        in ((cm, w), CmdNil))
     else if ks = ''n'' \<or> ks = ''N'' then ((cm\<lparr>currentView := ''main''\<rparr>, w), CmdNil)
     else ((cm, w), CmdNil))"

definition view_select_clean :: "os_env \<Rightarrow> Msg \<Rightarrow> KeyType \<Rightarrow> ChromiumManager \<Rightarrow> os_state \<Rightarrow> (ChromiumManager \<times> os_state) \<times> Cmd" where
  "view_select_clean env msg kt cm w =
    (if kt = KeyEnter then
       (case SelectedItem (profileList cm) of
          None \<Rightarrow> update_profileList env msg cm w
        | Some i \<Rightarrow>
            (let profilePath = Join env (profileDir cm) (title i) in
             if IsNotExist env profilePath then
               update_profileList env msg
                 (cm\<lparr>message := ''Profile directory does not exist'',
                     currentView := ''main''\<rparr>) w
             else
               (case ReadDir env profilePath of
                  Inl e \<Rightarrow>
                    update_profileList env msg
                      (cm\<lparr>message := ''Error reading directory: '' @ e,
                          currentView := ''main''\<rparr>) w
                | Inr files \<Rightarrow>
                    (case remove_files env profilePath files w of
                       (Some e, w) \<Rightarrow>
                         ((cm\<lparr>message := ''Error cleaning profile: '' @ e,
                              currentView := ''main''\<rparr>, w), CmdNil)
                     | (None, w) \<Rightarrow>
                         update_profileList env msg
                           (cm\<lparr>message :=
                                 ''Profile '' @ apostrophe @ title i @ apostrophe @
                                 '' completely cleared and reset'',
                               currentView := ''main''\<rparr>) w))))
     else update_profileList env msg cm w)"

text \<open>The case \<open>"edit_profile", "add_profile"\<close>: the digit keys, then the save on Enter.\<close>

definition view_edit_profile :: "os_env \<Rightarrow> KeyType \<Rightarrow> string \<Rightarrow> ChromiumManager \<Rightarrow> os_state \<Rightarrow> (ChromiumManager \<times> os_state) \<times> Cmd" where
  "view_edit_profile env kt ks cm w =
    (if ks = ''1'' then ((cm\<lparr>currentView := ''edit_name''\<rparr>, w), CmdNil)
     else if ks = ''2'' then ((cm\<lparr>currentView := ''edit_proxy''\<rparr>, w), CmdNil)
     else if ks = ''3'' then ((cm\<lparr>currentView := ''edit_type''\<rparr>, w), CmdNil)
     else if ks = ''4'' then ((cm\<lparr>currentView := ''edit_flags''\<rparr>, w), CmdNil)
     else if kt = KeyEnter then
       (let oldName = selected cm in
        if profileName cm = [] then
          ((cm\<lparr>message := ''Profile name is required''\<rparr>, w), CmdNil)
        else if oldName \<noteq> profileName cm \<and> profiles cm (profileName cm) \<noteq> None then
          ((cm\<lparr>message :=
                 ''Profile '' @ apostrophe @ profileName cm @ apostrophe @ '' already exists''\<rparr>,
            w), CmdNil)
        else
          (let cm = (if oldName \<noteq> profileName cm
                     then cm\<lparr>profiles := (profiles cm)(oldName := None)\<rparr> else cm);
               cm = cm\<lparr>profiles := (profiles cm)(profileName cm \<mapsto>
                          \<lparr>Name = profileName cm, Proxy = profileProxy cm,
                           ProxyType = profileType cm, Flags = profileFlags cm\<rparr>)\<rparr>;
               w = saveProfiles env cm w;
               cm = cm\<lparr>message :=
                          ''Profile '' @ apostrophe @ profileName cm @ apostrophe @ '' updated''\<rparr>;
               cm = cm\<lparr>currentView := ''main''\<rparr>
           in ((cm, w), CmdNil)))
     else ((cm, w), CmdNil))"

text \<open>One field of the text-input views: Backspace cuts the last byte, runes are appended.\<close>

definition edit_text :: "KeyType \<Rightarrow> string \<Rightarrow> string \<Rightarrow> string" where
  "edit_text kt ks field =
    (if kt = KeyBackspace \<and> length field > 0 then take (length field - 1) field
     else if kt = KeyRunes then field @ ks
     else field)"

definition view_text_input :: "KeyType \<Rightarrow> string \<Rightarrow> ChromiumManager \<Rightarrow> os_state \<Rightarrow> (ChromiumManager \<times> os_state) \<times> Cmd" where
  "view_text_input kt ks cm w =
    (if kt = KeyEnter then
       (if HasPrefix (currentView cm) ''edit_'' then
          (if selected cm \<noteq> [] then ((cm\<lparr>currentView := ''edit_profile''\<rparr>, w), CmdNil)
           else ((cm\<lparr>currentView := ''add_profile''\<rparr>, w), CmdNil))
        else ((cm, w), CmdNil))
     else if currentView cm = ''edit_name'' then
       ((cm\<lparr>profileName := edit_text kt ks (profileName cm)\<rparr>, w), CmdNil)
     else if currentView cm = ''edit_proxy'' then
       ((cm\<lparr>profileProxy := edit_text kt ks (profileProxy cm)\<rparr>, w), CmdNil)
     else if currentView cm = ''edit_type'' then
       ((cm\<lparr>profileType := edit_text kt ks (profileType cm)\<rparr>, w), CmdNil)
     else if currentView cm = ''edit_flags'' then
       ((cm\<lparr>profileFlags := edit_text kt ks (profileFlags cm)\<rparr>, w), CmdNil)
     else ((cm, w), CmdNil))"

definition resize :: "int \<Rightarrow> int \<Rightarrow> list_Model \<Rightarrow> list_Model" where
  "resize width height l = (if Items l \<noteq> None then SetSize width (height - 6) l else l)"

definition Update :: "os_env \<Rightarrow> Msg \<Rightarrow> ChromiumManager \<times> os_state \<Rightarrow> (ChromiumManager \<times> os_state) \<times> Cmd" where
  "Update env msg s =
    (case s of (cm, w) \<Rightarrow>
      (case msg of
         WindowSizeMsg width height \<Rightarrow>
           ((cm\<lparr>manageList := resize width height (manageList cm),
                mainList := resize width height (mainList cm),
                profileList := resize width height (profileList cm)\<rparr>, w), CmdNil)
       | OtherMsg \<Rightarrow> ((cm, w), CmdNil)
       | KeyMsg kt ks \<Rightarrow>
           (if kt = KeyCtrlC then ((cm, w), CmdQuit)
            else if kt = KeyEsc \<and> currentView cm \<noteq> ''main'' then
              ((cm\<lparr>currentView := ''main'', message := []\<rparr>, w), CmdNil)
            else if currentView cm = ''main'' then view_main env msg kt cm w
            else if currentView cm = ''select_profile'' then view_select_profile env msg kt cm w
            else if currentView cm = ''manage'' then view_manage env msg kt cm w
            else if currentView cm = ''select_edit'' then view_select_edit env msg kt cm w
            else if currentView cm = ''select_delete'' then view_select_delete env msg kt cm w
            else if currentView cm = ''confirm_delete'' then view_confirm_delete env ks cm w
            else if currentView cm = ''select_clean'' then view_select_clean env msg kt cm w
            else if currentView cm = ''edit_profile'' \<or> currentView cm = ''add_profile'' then
              view_edit_profile env kt ks cm w
            else if currentView cm = ''edit_name'' \<or> currentView cm = ''edit_proxy'' \<or>
                    currentView cm = ''edit_type'' \<or> currentView cm = ''edit_flags'' then
              view_text_input kt ks cm w
            else ((cm, w), CmdNil))))"

text \<open>The messages of a session, one after the other, up to the first \<open>tea.Quit\<close>.\<close>

fun run :: "os_env \<Rightarrow> Msg list \<Rightarrow> ChromiumManager \<times> os_state \<Rightarrow> ChromiumManager \<times> os_state" where
  "run env [] s = s"
| "run env (msg # rest) s =
     (if snd (Update env msg s) = CmdQuit then fst (Update env msg s)
      else run env rest (fst (Update env msg s)))"

section \<open>Start-up and the subcommands\<close>

definition initialModel :: "os_env \<Rightarrow> os_state \<Rightarrow> ChromiumManager \<times> os_state" where
  "initialModel env w =
    (let cm = new_manager;
         homeDir = UserHomeDir env;
         cm = cm\<lparr>profileDir := Join env homeDir ''.chrome_profiles''\<rparr>;
         cm = cm\<lparr>configFile := Join env (profileDir cm) ''profiles.conf''\<rparr>;
         cm = cm\<lparr>chromePath := ''/Applications/Chromium.app/Contents/MacOS/Chromium''\<rparr>;
         cm = (if IsNotExist env (chromePath cm)
               then cm\<lparr>chromePath :=
                         ''/Applications/Google Chrome.app/Contents/MacOS/Google Chrome''\<rparr>
               else cm);
         w = do_effect (MkdirAll (profileDir cm)) w
     in case loadProfiles env cm w of
          (cm, w) \<Rightarrow>
            (let cm = cm\<lparr>mainList :=
                         list_New
                           [\<lparr>title = ''Launch Browser'', desc = ''Start with a profile''\<rparr>,
                            \<lparr>title = ''Manage Profiles'', desc = ''Add, edit or remove profiles''\<rparr>,
                            \<lparr>title = ''Clean Profile'', desc = ''Clear browsing data''\<rparr>,
                            \<lparr>title = ''Quit'', desc = ''Exit application''\<rparr>]
                           80 24\<rparr>
             in (updateManageList cm, w)))"

definition Println :: "string \<Rightarrow> string" where
  "Println s = s @ [newline]"

definition printHelp :: "string list" where
  "printHelp =
    [Println ''Launchium - Chromium Profile Manager'',
     Println (newline # ''Usage:''),
     Println ''  launchium [command] [options]'',
     Println (newline # ''Commands:''),
     Println ''  launch    Launch browser with specified profile'',
     Println ''  clean     Clean a specific profile'',
     Println ''  list      List all available profiles'',
     Println ''  version   Show version information'',
     Println ''  help      Show this help message'',
     Println (newline # ''Options for 'launch' and 'clean':''),
     Println ''  -profile  Specify the profile name (default: 'default')'',
     Println (newline # ''Examples:''),
     Println ''  launchium                    Start the interactive UI'',
     Println ''  launchium launch -profile=work  Launch browser with 'work' profile'',
     Println ''  launchium clean -profile=test   Clean the 'test' profile'',
     Println ''  launchium list               List all available profiles'']"

text \<open>
  \<open>parseCommandLine\<close>: \<open>Inl\<close> is the status with which the process exits inside the
  function (\<open>help\<close>, or the flag library), \<open>Inr\<close> the three values it returns. The
  first component is what it printed.
\<close>

definition parseCommandLine :: "os_env \<Rightarrow> string list \<Rightarrow> string list \<times> (nat + string \<times> string \<times> bool)" where
  "parseCommandLine env args =
    (if length args < 2 then ([], Inr ([], [], False))
     else if args ! 1 = ''launch'' then
       (case flag_Parse env ''launch'' (drop 2 args) of
          Inl status \<Rightarrow> ([], Inl status)
        | Inr launchProfile \<Rightarrow> ([], Inr (''launch'', launchProfile, True)))
     else if args ! 1 = ''clean'' then
       (case flag_Parse env ''clean'' (drop 2 args) of
          Inl status \<Rightarrow> ([], Inl status)
        | Inr cleanProfile \<Rightarrow> ([], Inr (''clean'', cleanProfile, True)))
     else if args ! 1 = ''list'' then
       (case flag_Parse env ''list'' (drop 2 args) of
          Inl status \<Rightarrow> ([], Inl status)
        | Inr _ \<Rightarrow> ([], Inr (''list'', [], True)))
     else if args ! 1 = ''version'' then
       (case flag_Parse env ''version'' (drop 2 args) of
          Inl status \<Rightarrow> ([], Inl status)
        | Inr _ \<Rightarrow> ([], Inr (''version'', [], True)))
     else if args ! 1 = ''help'' then (printHelp, Inl 0)
     else ([], Inr ([], [], False)))"

definition VERSION :: string where
  "VERSION = ''0.1.0''"

text \<open>
  \<open>main\<close>: the exit status of the process, what it printed, and the state it leaves.
  Returning from \<open>main\<close> is status 0.
\<close>

definition main :: "os_env \<Rightarrow> string list \<Rightarrow> os_state \<Rightarrow> nat \<times> string list \<times> os_state" where
  "main env args w =
    (case parseCommandLine env args of
       (out, Inl status) \<Rightarrow> (status, out, w)
     | (out, Inr (cmd, pn, hasCmdArgs)) \<Rightarrow>
         (if hasCmdArgs then
            (case initialModel env w of
               (cm, w) \<Rightarrow>
                 (if cmd = ''launch'' then
                    (case launchBrowser env cm pn w of
                       (result, w) \<Rightarrow>
                         (0,
                          out @ [Println (''Launching browser with profile: '' @ pn),
                                 Println result],
                          w))
                  else if cmd = ''clean'' then
                    (let out = out @ [Println (''Cleaning profile: '' @ pn)];
                         profilePath = Join env (profileDir cm) pn
                     in if IsNotExist env profilePath then
                          (0, out @ [Println ''Error: Profile directory does not exist''], w)
                        else
                          (case ReadDir env profilePath of
                             Inl e \<Rightarrow> (0, out @ [''Error reading directory: '' @ e @ [newline]], w)
                           | Inr files \<Rightarrow>
                               (case remove_files env profilePath files w of
                                  (Some e, w) \<Rightarrow>
                                    (1, out @ [''Error cleaning profile: '' @ e @ [newline]], w)
                                | (None, w) \<Rightarrow>
                                    (0,
                                     out @ [''Profile '' @ apostrophe @ pn @ apostrophe @
                                            '' completely cleared and reset'' @ [newline]],
                                     w))))
                  else if cmd = ''list'' then
                    (0,
                     out @ [Println ''Available profiles:''] @
                     map (\<lambda>name. Println (''  - '' @ name)) (range_keys env (profiles cm)),
                     w)
                  else if cmd = ''version'' then
                    (0, out @ [''Launchium version '' @ VERSION @ [newline]], w)
                  else (0, out, w)))
          else
            (case initialModel env w of
               (cm, w) \<Rightarrow>
                 (case tea_Run env cm w of
                    (Some e, w) \<Rightarrow> (1, out @ [''Error: '' @ e], w)
                  | (None, w) \<Rightarrow> (0, out, w)))))"

text \<open>
  The specification's words for a failed removal: the working directory exists, can be
  listed, and the removal of one of its entries gives an error.
\<close>

definition removal_fails :: "os_env \<Rightarrow> string \<Rightarrow> bool" where
  "removal_fails env profilePath =
    (\<not> IsNotExist env profilePath \<and>
     (case ReadDir env profilePath of
        Inl e \<Rightarrow> False
      | Inr files \<Rightarrow>
          list_ex (\<lambda>file. RemoveAll_err env (Join env profilePath file) \<noteq> None) files))"

section \<open>The specification's words for the store file\<close>

text \<open>
  A line of the store file is valid when it is not empty, does not start with \<open>#\<close>
  and has at least four fields between \<open>|\<close>; it is parsed into the profile of its
  first four fields.
\<close>

definition valid_line :: "string \<Rightarrow> bool" where
  "valid_line l =
    (l \<noteq> [] \<and> \<not> HasPrefix l ''#'' \<and> 4 \<le> length (strings_Split l CHR ''|''))"

definition line_name :: "string \<Rightarrow> string" where
  "line_name l = strings_Split l CHR ''|'' ! 0"

definition parse_line :: "string \<Rightarrow> Profile" where
  "parse_line l =
    \<lparr>Name = strings_Split l CHR ''|'' ! 0,
     Proxy = strings_Split l CHR ''|'' ! 1,
     ProxyType = strings_Split l CHR ''|'' ! 2,
     Flags = strings_Split l CHR ''|'' ! 3\<rparr>"

text \<open>
  The profile that the valid lines give for a name: the one of the last valid line with
  that name, if there is one.
\<close>

definition parsed_profiles :: "string list \<Rightarrow> (string \<rightharpoonup> Profile)" where
  "parsed_profiles ls n =
    map_option parse_line (find (\<lambda>l. line_name l = n) (rev (filter valid_line ls)))"

text \<open>A field that can be written to the store file and read back.\<close>

definition plain_field :: "string \<Rightarrow> bool" where
  "plain_field s = (CHR ''|'' \<notin> set s \<and> newline \<notin> set s)"

definition storable :: "Profile \<Rightarrow> bool" where
  "storable p =
    (plain_field (Name p) \<and> plain_field (Proxy p) \<and> plain_field (ProxyType p) \<and>
     plain_field (Flags p) \<and> \<not> HasPrefix (Name p) ''#'')"

text \<open>Every key of the map is the name of the profile stored under it.\<close>

definition keyed_by_name :: "(string \<rightharpoonup> Profile) \<Rightarrow> bool" where
  "keyed_by_name m = (\<forall>k p. m k = Some p \<longrightarrow> Name p = k)"

text \<open>Every profile of the map can be written to the store file and read back.\<close>

definition all_storable :: "(string \<rightharpoonup> Profile) \<Rightarrow> bool" where
  "all_storable m = (\<forall>p \<in> ran m. storable p)"

section \<open>Auxiliary definitions\<close>

text \<open>
  The text of a profile's line without its final newline, and the loop that stores a
  list of profiles under their names one after the other.
\<close>

definition line_body :: "Profile \<Rightarrow> string" where
  "line_body p = Name p @ ''|'' @ Proxy p @ ''|'' @ ProxyType p @ ''|'' @ Flags p"

fun store_each :: "(string \<rightharpoonup> Profile) \<Rightarrow> Profile list \<Rightarrow> (string \<rightharpoonup> Profile)" where
  "store_each m [] = m"
| "store_each m (p # ps) = store_each (m(Name p \<mapsto> p)) ps"

section \<open>Concrete inputs\<close>

text \<open>A list widget that moves its cursor on the keys \<open>down\<close> and \<open>up\<close>.\<close>

definition cursor_keys :: "Msg \<Rightarrow> list_Model \<Rightarrow> list_Model \<times> Cmd" where
  "cursor_keys msg l =
    (case msg of
       KeyMsg kt ks \<Rightarrow>
         (if ks = ''down'' then (l\<lparr>Index := Index l + 1\<rparr>, CmdNil)
          else if ks = ''up'' then (l\<lparr>Index := Index l - 1\<rparr>, CmdNil)
          else (l, CmdNil))
     | _ \<Rightarrow> (l, CmdNil))"

text \<open>
  An environment in which every call succeeds; a \<open>range\<close> loop visits the keys named
  in \<open>order\<close> that the map has.
\<close>

definition quiet_env :: "string list \<Rightarrow> os_env" where
  "quiet_env order =
    \<lparr>Join = (\<lambda>dir name. dir @ ''/'' @ name),
     GOOS = ''linux'',
     TempDir = ''/tmp'',
     UserHomeDir = ''/home/u'',
     IsNotExist = (\<lambda>path. False),
     store_writable = True,
     store_readable = True,
     WriteFile_err = (\<lambda>path. None),
     ReadDir = (\<lambda>path. Inr []),
     RemoveAll_err = (\<lambda>path. None),
     Start_err = (\<lambda>name args. None),
     range_keys = (\<lambda>m. filter (\<lambda>k. m k \<noteq> None) order),
     list_Update = cursor_keys,
     flag_Parse = (\<lambda>name args. Inr ''default''),
     tea_Run = (\<lambda>cm w. (None, w))\<rparr>"

definition no_file :: os_state where
  "no_file = \<lparr>store = None, effects = []\<rparr>"

definition file_of :: "string \<Rightarrow> os_state" where
  "file_of content = \<lparr>store = Some content, effects = []\<rparr>"

definition work_profile :: Profile where
  "work_profile = \<lparr>Name = ''work'', Proxy = ''127.0.0.1:8080'', ProxyType = ''http'', Flags = ''--a --b''\<rparr>"

definition home_profile :: Profile where
  "home_profile = \<lparr>Name = ''home'', Proxy = ''none'', ProxyType = ''none'', Flags = []\<rparr>"

definition hash_profile :: Profile where
  "hash_profile = \<lparr>Name = ''#x'', Proxy = ''none'', ProxyType = ''none'', Flags = ''--a''\<rparr>"

definition two_profiles :: "string \<rightharpoonup> Profile" where
  "two_profiles = [''work'' \<mapsto> work_profile, ''home'' \<mapsto> home_profile]"

definition hash_profiles :: "string \<rightharpoonup> Profile" where
  "hash_profiles = [''#x'' \<mapsto> hash_profile]"

definition sample_file :: string where
  "sample_file =
     ''# profiles'' @ [newline] @
     ''work|127.0.0.1:8080|http|--a --b'' @ [newline] @
     ''broken|none'' @ [newline] @
     [newline] @
     ''home|none|none|'' @ [newline]"

definition long_line_file :: string where
  "long_line_file = ''work|none|none|--a|--b|rest'' @ [newline]"

text \<open>The editor open on the profile \<open>work\<close> of \<open>two_profiles\<close>, with a new name typed.\<close>

definition editing_work :: "string \<Rightarrow> ChromiumManager" where
  "editing_work name =
    new_manager
      \<lparr>profiles := two_profiles, currentView := ''edit_profile'', selected := ''work'',
       profileName := name, profileProxy := ''none'', profileType := ''none'',
       profileFlags := ''--x''\<rparr>"

text \<open>A store file with the two profiles, and the program started on it.\<close>

definition two_profiles_file :: string where
  "two_profiles_file =
    ''work|127.0.0.1:8080|http|--a --b'' @ [newline] @ ''home|none|none|'' @ [newline]"

definition started :: "ChromiumManager \<times> os_state" where
  "started = initialModel (quiet_env [''work'', ''home'']) (file_of two_profiles_file)"

text \<open>
  A session: open the management menu, edit the profile \<open>work\<close> and save it unchanged,
  then open the management menu again and choose \<open>Add New Profile\<close>.
\<close>

definition edit_then_add :: "Msg list" where
  "edit_then_add =
    [KeyMsg KeyOther ''down'', KeyMsg KeyEnter ''enter'',
     KeyMsg KeyOther ''down'', KeyMsg KeyEnter ''enter'',
     KeyMsg KeyEnter ''enter'',
     KeyMsg KeyEnter ''enter'',
     KeyMsg KeyEnter ''enter'',
     KeyMsg KeyEnter ''enter'']"

text \<open>The session goes on: type the name \<open>new\<close> and save the new profile.\<close>

definition name_and_save :: "Msg list" where
  "name_and_save =
    [KeyMsg KeyRunes ''1'', KeyMsg KeyRunes ''n'', KeyMsg KeyRunes ''e'', KeyMsg KeyRunes ''w'',
     KeyMsg KeyEnter ''enter'', KeyMsg KeyEnter ''enter'']"

text \<open>The invariant of the profile map: no empty name, every profile under its name.\<close>

definition names_inv :: "(string \<rightharpoonup> Profile) \<Rightarrow> bool" where
  "names_inv m = (m [] = None \<and> keyed_by_name m)"

text \<open>An environment in which the removal of every entry fails.\<close>

definition locked_env :: os_env where
  "locked_env =
    (quiet_env [])
      \<lparr>ReadDir := (\<lambda>path. Inr [''Cache'']),
       RemoveAll_err := (\<lambda>path. Some ''permission denied'')\<rparr>"

text \<open>An environment whose flag library finds \<open>-profile=nosuch\<close>.\<close>

definition nosuch_env :: os_env where
  "nosuch_env = (quiet_env [''work'', ''home''])\<lparr>flag_Parse := (\<lambda>name args. Inr ''nosuch'')\<rparr>"

section \<open>Facts about the string functions\<close>

lemma strings_Split_not_Nil: "strings_Split s c \<noteq> []"
  by (induction s) (auto split: list.splits)

lemma strings_Split_no_sep: "c \<notin> set s \<Longrightarrow> strings_Split s c = [s]"
  by (induction s) auto

lemma strings_Split_at_sep:
  "c \<notin> set s \<Longrightarrow> strings_Split (s @ c # t) c = s # strings_Split t c"
  by (induction s) auto

lemma append_flags_filter: "append_flags args fs = args @ filter (\<lambda>t. t \<noteq> []) fs"
  by (induction fs arbitrary: args) auto

lemma append_each_append: "append_each args fs = args @ fs"
  by (induction fs arbitrary: args) auto

lemma flag_tokens_empty_flags: "Flags profile = [] \<Longrightarrow> flag_tokens profile = []"
  by (simp add: flag_tokens_def)

lemma build_cmdArgs_segments:
  "build_cmdArgs std profilePath profile =
     [''--user-data-dir='' @ profilePath, ''--new-window'', ''about:blank''] @
     proxy_segment profile @ flag_tokens profile @ std"
proof (cases "Flags profile = []")
  case True
  then show ?thesis
    by (simp add: build_cmdArgs_def Let_def proxy_segment_def flag_tokens_empty_flags
        append_each_append)
next
  case False
  then show ?thesis
    by (simp add: build_cmdArgs_def Let_def proxy_segment_def flag_tokens_def
        append_flags_filter append_each_append)
qed

lemma standardFlags_no_proxy: "a \<in> set standardFlags \<Longrightarrow> \<not> HasPrefix a ''--proxy-server=''"
  by (auto simp: standardFlags_def HasPrefix_def)

section \<open>Claims about the launch arguments\<close>

text \<open>
  C1 (as amended). For every profile and every working directory, the argument list
  is, in this order: the flag \<open>--user-data-dir=<profileWorkDir>\<close>; \<open>--new-window\<close>;
  \<open>about:blank\<close>; if the proxy address is not \<open>none\<close>, one flag
  \<open>--proxy-server=<prefix><address>\<close> whose prefix is \<open>http://\<close> exactly when the
  proxy type is \<open>http\<close> and empty otherwise; the non-empty pieces of the flags string
  split at single spaces, in order; the fixed suppression tail. When the proxy address
  is \<open>none\<close> the builder adds no proxy flag of its own: an argument that starts with
  \<open>--proxy-server=\<close> is in the list only as a piece of the profile's flags string.
\<close>

theorem cmdArgs_order:
  "cmdArgs profilePath profile =
     [''--user-data-dir='' @ profilePath, ''--new-window'', ''about:blank''] @
     (if Proxy profile \<noteq> ''none''
      then [''--proxy-server='' @ (if ProxyType profile = ''http'' then ''http://'' else []) @
            Proxy profile]
      else []) @
     filter (\<lambda>t. t \<noteq> []) (strings_Split (Flags profile) CHR '' '') @
     standardFlags
   \<and> (Proxy profile = ''none'' \<longrightarrow>
        (\<forall>a \<in> set (cmdArgs profilePath profile).
           HasPrefix a ''--proxy-server='' \<longrightarrow> a \<in> set (flag_tokens profile)))"
proof (intro conjI impI ballI)
  show "cmdArgs profilePath profile =
     [''--user-data-dir='' @ profilePath, ''--new-window'', ''about:blank''] @
     (if Proxy profile \<noteq> ''none''
      then [''--proxy-server='' @ (if ProxyType profile = ''http'' then ''http://'' else []) @
            Proxy profile]
      else []) @
     filter (\<lambda>t. t \<noteq> []) (strings_Split (Flags profile) CHR '' '') @
     standardFlags"
    unfolding cmdArgs_def build_cmdArgs_segments proxy_segment_def flag_tokens_def ..
next
  fix a
  assume none: "Proxy profile = ''none''"
    and a: "a \<in> set (cmdArgs profilePath profile)"
    and p: "HasPrefix a ''--proxy-server=''"
  from a none have
    "a \<in> {''--user-data-dir='' @ profilePath, ''--new-window'', ''about:blank''} \<union>
       set (flag_tokens profile) \<union> set standardFlags"
    by (auto simp: cmdArgs_def build_cmdArgs_segments proxy_segment_def)
  moreover have "\<not> HasPrefix (''--user-data-dir='' @ profilePath) ''--proxy-server=''"
    by (simp add: HasPrefix_def)
  moreover have "\<not> HasPrefix ''--new-window'' ''--proxy-server=''"
    by (simp add: HasPrefix_def)
  moreover have "\<not> HasPrefix ''about:blank'' ''--proxy-server=''"
    by (simp add: HasPrefix_def)
  ultimately show "a \<in> set (flag_tokens profile)"
    using p standardFlags_no_proxy by blast
qed

theorem cmdArgs_order_witness:
  "Proxy tor_in_flags = ''none''
   \<and> ''--proxy-server=socks5://127.0.0.1:9050'' \<in> set (cmdArgs ''/p/tor'' tor_in_flags)
   \<and> HasPrefix ''--proxy-server=socks5://127.0.0.1:9050'' ''--proxy-server=''
   \<and> ''--proxy-server=socks5://127.0.0.1:9050'' \<in> set (flag_tokens tor_in_flags)
   \<and> cmdArgs ''/p/tor'' tor_in_flags =
       [''--user-data-dir=/p/tor'', ''--new-window'', ''about:blank'',
        ''--incognito'', ''--proxy-server=socks5://127.0.0.1:9050''] @ standardFlags"
  using cmdArgs_order [of "''/p/tor''" tor_in_flags]
  by (simp add: tor_in_flags_def HasPrefix_def flag_tokens_def)

text \<open>
  C1 as stated fails: the profile \<open>tor_in_flags\<close> has the proxy address \<open>none\<close>, and
  its argument list holds a proxy flag, the one written in its flags string.
\<close>

theorem cmdArgs_none_proxy_flag_counterexample:
  "Proxy tor_in_flags = ''none''
   \<and> cmdArgs ''/p/tor'' tor_in_flags ! 4 = ''--proxy-server=socks5://127.0.0.1:9050''"
  by (simp add: tor_in_flags_def cmdArgs_def build_cmdArgs_def Let_def append_each_append)

text \<open>
  C8. For every profile and every working-directory path, the argument lists that the
  two source files build are equal element for element, except that the list of
  \<open>main.go\<close> has one more element at its end, \<open>--ignore-certificate-errors\<close>.
\<close>

theorem cmdArgs_variants:
  "cmdArgs profilePath profile =
     cmdArgs_part_000 profilePath profile @ [''--ignore-certificate-errors'']"
  by (simp add: cmdArgs_def cmdArgs_part_000_def build_cmdArgs_segments
      standardFlags_def standardFlags_part_000_def)

section \<open>Facts about the store file\<close>

lemma concat_lines_concat: "concat_lines content ps = content @ concat (map profile_line ps)"
  by (induction ps arbitrary: content) auto

lemma profile_line_body: "profile_line p = line_body p @ [newline]"
  by (simp add: profile_line_def line_body_def)

lemma newline_not_bar: "newline \<noteq> CHR ''|''"
  by (simp add: newline_def)

lemma line_body_no_newline:
  "storable p \<Longrightarrow> newline \<notin> set (line_body p)"
  using newline_not_bar by (auto simp: storable_def plain_field_def line_body_def)

lemma split_lines:
  "\<forall>p \<in> set ps. storable p \<Longrightarrow>
   strings_Split (concat (map profile_line ps)) newline = map line_body ps @ [[]]"
proof (induction ps)
  case Nil
  then show ?case by simp
next
  case (Cons p ps)
  then have "newline \<notin> set (line_body p)" by (simp add: line_body_no_newline)
  then have "strings_Split (line_body p @ newline # concat (map profile_line ps)) newline =
    line_body p # strings_Split (concat (map profile_line ps)) newline"
    by (rule strings_Split_at_sep)
  moreover from Cons have
    "strings_Split (concat (map profile_line ps)) newline = map line_body ps @ [[]]"
    by simp
  moreover have "concat (map profile_line (p # ps)) =
    line_body p @ newline # concat (map profile_line ps)"
    by (simp add: profile_line_body)
  ultimately show ?case by (simp only: list.map append_Cons)
qed

lemma split_fields:
  assumes "storable p"
  shows "strings_Split (line_body p) CHR ''|'' = [Name p, Proxy p, ProxyType p, Flags p]"
proof -
  from assms have n: "CHR ''|'' \<notin> set (Name p)" and x: "CHR ''|'' \<notin> set (Proxy p)"
    and t: "CHR ''|'' \<notin> set (ProxyType p)" and f: "CHR ''|'' \<notin> set (Flags p)"
    by (auto simp: storable_def plain_field_def)
  show ?thesis
    unfolding line_body_def
    by (simp add: strings_Split_at_sep [OF n] strings_Split_at_sep [OF x]
        strings_Split_at_sep [OF t] strings_Split_no_sep [OF f])
qed

lemma line_body_not_comment:
  "storable p \<Longrightarrow> line_body p \<noteq> [] \<and> \<not> HasPrefix (line_body p) ''#''"
  by (cases "Name p") (auto simp: storable_def line_body_def HasPrefix_def)

lemma load_lines_append: "load_lines m (xs @ ys) = load_lines (load_lines m xs) ys"
  by (induction xs arbitrary: m) (auto simp: Let_def)

lemma load_line_body:
  assumes s: "storable p"
  shows "load_lines m (line_body p # rest) = load_lines (m(Name p \<mapsto> p)) rest"
proof -
  have "load_lines m (line_body p # rest) =
      load_lines
        (m(Name p \<mapsto>
           \<lparr>Name = Name p, Proxy = Proxy p, ProxyType = ProxyType p, Flags = Flags p\<rparr>))
        rest"
    using line_body_not_comment [OF s] split_fields [OF s] by simp
  moreover have
    "\<lparr>Name = Name p, Proxy = Proxy p, ProxyType = ProxyType p, Flags = Flags p\<rparr> = p"
    by simp
  ultimately show ?thesis by simp
qed

lemma load_bodies:
  "\<forall>p \<in> set ps. storable p \<Longrightarrow> load_lines m (map line_body ps @ [[]]) = store_each m ps"
proof (induction ps arbitrary: m)
  case Nil
  then show ?case by simp
next
  case (Cons p ps)
  then have "load_lines m (line_body p # (map line_body ps @ [[]])) =
      load_lines (m(Name p \<mapsto> p)) (map line_body ps @ [[]])"
    by (simp add: load_line_body del: load_lines.simps)
  with Cons show ?case by (simp del: load_lines.simps)
qed

lemma load_saved_content:
  "\<forall>p \<in> set ps. storable p \<Longrightarrow>
   load_lines m (strings_Split (concat_lines [] ps) newline) = store_each m ps"
  by (simp add: concat_lines_concat split_lines load_bodies)

lemma store_each_keys:
  "\<forall>k \<in> set ks. \<exists>p. m k = Some p \<and> Name p = k \<Longrightarrow>
   store_each m0 (List.map_filter m ks) = (\<lambda>x. if x \<in> set ks then m x else m0 x)"
proof (induction ks arbitrary: m0)
  case Nil
  then show ?case by (simp add: map_filter_simps)
next
  case (Cons k ks)
  then obtain p where p: "m k = Some p" "Name p = k" by auto
  from Cons have ih: "store_each (m0(k \<mapsto> p)) (List.map_filter m ks) =
    (\<lambda>x. if x \<in> set ks then m x else (m0(k \<mapsto> p)) x)" by simp
  have "store_each m0 (List.map_filter m (k # ks)) =
      store_each (m0(k \<mapsto> p)) (List.map_filter m ks)"
    using p by (simp add: map_filter_simps)
  also have "\<dots> = (\<lambda>x. if x \<in> set (k # ks) then m x else m0 x)"
    unfolding ih using p(1) by (intro ext) simp
  finally show ?case .
qed

lemma map_filter_in_ran: "p \<in> set (List.map_filter m ks) \<Longrightarrow> p \<in> ran m"
  by (auto simp: List.map_filter_def ran_def)

lemma find_snoc:
  "find P (xs @ [x]) = (case find P xs of Some y \<Rightarrow> Some y | None \<Rightarrow> if P x then Some x else None)"
  by (induction xs) auto

lemma parsed_Cons_valid:
  "valid_line l \<Longrightarrow>
   parsed_profiles (l # rest) = [line_name l \<mapsto> parse_line l] ++ parsed_profiles rest"
  by (auto simp: parsed_profiles_def find_snoc map_add_def fun_eq_iff split: option.splits)

lemma parsed_Cons_invalid: "\<not> valid_line l \<Longrightarrow> parsed_profiles (l # rest) = parsed_profiles rest"
  by (simp add: parsed_profiles_def fun_eq_iff)

lemma load_lines_step:
  "load_lines m (l # rest) =
     (if valid_line l then load_lines (m(line_name l \<mapsto> parse_line l)) rest
      else load_lines m rest)"
  by (auto simp: valid_line_def line_name_def parse_line_def Let_def)

lemma load_lines_parsed: "load_lines m ls = m ++ parsed_profiles ls"
proof (induction ls arbitrary: m)
  case Nil
  show ?case by (simp add: parsed_profiles_def fun_eq_iff map_add_def)
next
  case (Cons l ls)
  show ?case
  proof (cases "valid_line l")
    case True
    then have "load_lines m (l # ls) = load_lines (m(line_name l \<mapsto> parse_line l)) ls"
      by (simp only: load_lines_step if_True)
    also have "\<dots> = m(line_name l \<mapsto> parse_line l) ++ parsed_profiles ls"
      by (rule Cons)
    also have "\<dots> = m ++ ([line_name l \<mapsto> parse_line l] ++ parsed_profiles ls)"
      by (auto simp: map_add_def fun_eq_iff split: option.splits)
    finally show ?thesis using True by (simp only: parsed_Cons_valid)
  next
    case False
    then have "load_lines m (l # ls) = load_lines m ls"
      by (simp only: load_lines_step if_False)
    with False show ?thesis
      by (simp add: Cons parsed_Cons_invalid del: load_lines.simps)
  qed
qed

lemma load_lines_skip:
  "line = [] \<or> HasPrefix line ''#'' \<or> length (strings_Split line CHR ''|'') < 4 \<Longrightarrow>
   load_lines m (line # rest) = load_lines m rest"
  by (auto simp: Let_def)

lemma defaults_storable: "\<forall>p \<in> set defaults. storable p"
  by (simp add: defaults_def storable_def plain_field_def newline_def HasPrefix_def)

lemma parsed_profiles_no_line:
  "find (\<lambda>l. valid_line l \<and> line_name l = n) ls = None \<Longrightarrow> parsed_profiles ls n = None"
  by (auto simp: parsed_profiles_def find_None_iff)

section \<open>Claims about the profile store\<close>

text \<open>
  C2 (as amended). For every finite mapping of profiles in which each profile is stored
  under its name, no field of any profile contains the \<open>|\<close> character or a newline,
  and no name begins with \<open>#\<close>: when the store file can be written and read, save
  followed by load into a fresh manager yields a mapping equal to the original, whatever
  order save visits the entries in.
\<close>

theorem save_load_roundtrip:
  assumes order: "range_ok env (profiles cm)"
    and keys: "keyed_by_name (profiles cm)"
    and fields: "all_storable (profiles cm)"
    and io: "store_writable env" "store_readable env"
    and fresh: "profiles cm0 = Map.empty"
  shows "profiles (fst (loadProfiles env cm0 (saveProfiles env cm w))) = profiles cm"
proof -
  let ?m = "profiles cm"
  let ?ks = "range_keys env ?m"
  let ?ps = "List.map_filter ?m ?ks"
  have st: "\<forall>p \<in> set ?ps. storable p"
  proof
    fix p assume "p \<in> set ?ps"
    then have "p \<in> ran ?m" by (rule map_filter_in_ran)
    with fields show "storable p" by (simp add: all_storable_def)
  qed
  have ks: "\<forall>k \<in> set ?ks. \<exists>p. ?m k = Some p \<and> Name p = k"
    using order keys by (auto simp: range_ok_def keyed_by_name_def)
  have "profiles (fst (loadProfiles env cm0 (saveProfiles env cm w))) =
      load_lines Map.empty (strings_Split (concat_lines [] ?ps) newline)"
    using io fresh
    by (simp add: loadProfiles_def saveProfiles_def store_WriteFile_def store_ReadFile_def
        updateProfileList_def Let_def)
  also have "\<dots> = store_each Map.empty ?ps"
    using st by (rule load_saved_content)
  also have "\<dots> = (\<lambda>x. if x \<in> set ?ks then ?m x else None)"
    using ks by (rule store_each_keys)
  also have "\<dots> = ?m"
    using order by (auto simp: range_ok_def fun_eq_iff)
  finally show ?thesis .
qed

theorem save_load_roundtrip_witness:
  "range_ok (quiet_env [''home'', ''work'']) two_profiles
   \<and> keyed_by_name two_profiles
   \<and> all_storable two_profiles
   \<and> store_writable (quiet_env [''home'', ''work''])
   \<and> store_readable (quiet_env [''home'', ''work''])
   \<and> profiles new_manager = Map.empty
   \<and> profiles
        (fst (loadProfiles (quiet_env [''home'', ''work'']) new_manager
           (saveProfiles (quiet_env [''home'', ''work''])
              (new_manager\<lparr>profiles := two_profiles\<rparr>) no_file))) = two_profiles"
proof -
  have 1: "range_ok (quiet_env [''home'', ''work'']) two_profiles"
    by (auto simp: range_ok_def quiet_env_def two_profiles_def)
  have 2: "keyed_by_name two_profiles"
    by (simp add: keyed_by_name_def two_profiles_def work_profile_def home_profile_def)
  have 3: "all_storable two_profiles"
    by (auto simp: all_storable_def two_profiles_def ran_def storable_def plain_field_def
        work_profile_def home_profile_def newline_def HasPrefix_def)
  have 4: "store_writable (quiet_env [''home'', ''work''])"
    and 5: "store_readable (quiet_env [''home'', ''work''])"
    by (simp_all add: quiet_env_def)
  have 6: "profiles new_manager = Map.empty"
    by (simp add: new_manager_def)
  show ?thesis
    using 1 2 3 4 5 6
      save_load_roundtrip [of "quiet_env [''home'', ''work'']"
        "new_manager\<lparr>profiles := two_profiles\<rparr>" new_manager no_file]
    by simp
qed

text \<open>
  C2 as stated fails: the one profile of \<open>hash_profiles\<close> has a non-empty name, no
  \<open>|\<close> and no newline in any field, and a flags field that does not start with \<open>#\<close>;
  its name starts with \<open>#\<close>, so load takes its line for a comment and the mapping
  read back is empty.
\<close>

theorem save_load_hash_name_counterexample:
  "hash_profiles ''#x'' = Some hash_profile
   \<and> Name hash_profile = ''#x''
   \<and> plain_field (Name hash_profile) \<and> plain_field (Proxy hash_profile)
   \<and> plain_field (ProxyType hash_profile) \<and> plain_field (Flags hash_profile)
   \<and> \<not> HasPrefix (Flags hash_profile) ''#''
   \<and> range_keys (quiet_env [''#x'']) hash_profiles = [''#x'']
   \<and> profiles
        (fst (loadProfiles (quiet_env [''#x'']) new_manager
           (saveProfiles (quiet_env [''#x''])
              (new_manager\<lparr>profiles := hash_profiles\<rparr>) no_file))) ''#x'' = None"
  by (simp add: loadProfiles_def saveProfiles_def store_WriteFile_def store_ReadFile_def
      updateProfileList_def Let_def quiet_env_def new_manager_def no_file_def
      hash_profile_def hash_profiles_def map_filter_simps profile_line_def HasPrefix_def
      newline_def plain_field_def)

text \<open>
  C3. When load runs from an empty mapping and the store file does not exist (and the
  file can be written and read), the resulting mapping contains exactly two profiles:
  \<open>default\<close> with proxy \<open>none\<close>, proxy type \<open>none\<close> and the minimal flags string,
  and \<open>clean\<close> with proxy \<open>none\<close>, proxy type \<open>none\<close> and the extended suppression
  flags string; and the store file is created with those two entries.
\<close>

theorem first_run_seeding:
  assumes "store w = None" and "store_writable env" and "store_readable env"
    and "profiles cm = Map.empty"
  shows "profiles (fst (loadProfiles env cm w)) =
      [''default'' \<mapsto>
         \<lparr>Name = ''default'', Proxy = ''none'', ProxyType = ''none'',
          Flags = ''--no-first-run --disable-features=RendererCodeIntegrity''\<rparr>,
       ''clean'' \<mapsto>
         \<lparr>Name = ''clean'', Proxy = ''none'', ProxyType = ''none'',
          Flags = ''--no-first-run --disable-features=RendererCodeIntegrity,UseChromeOSDirectVideoDecoder --disable-gpu-driver-bug-workarounds --ignore-gpu-blacklist --disable-gpu-compositing --disable-infobars''\<rparr>]
    \<and> dom (profiles (fst (loadProfiles env cm w))) = {''default'', ''clean''}
    \<and> store (snd (loadProfiles env cm w)) =
        Some (''default|none|none|--no-first-run --disable-features=RendererCodeIntegrity'' @ [newline] @
              ''clean|none|none|--no-first-run --disable-features=RendererCodeIntegrity,UseChromeOSDirectVideoDecoder --disable-gpu-driver-bug-workarounds --ignore-gpu-blacklist --disable-gpu-compositing --disable-infobars'' @ [newline])"
proof -
  have l: "profiles (fst (loadProfiles env cm w)) =
      load_lines Map.empty (strings_Split (concat_lines [] defaults) newline)"
    using assms
    by (simp add: loadProfiles_def store_WriteFile_def store_ReadFile_def
        updateProfileList_def)
  have "load_lines Map.empty (strings_Split (concat_lines [] defaults) newline) =
      store_each Map.empty defaults"
    using defaults_storable by (rule load_saved_content)
  with l have p: "profiles (fst (loadProfiles env cm w)) = store_each Map.empty defaults"
    by simp
  have s: "store (snd (loadProfiles env cm w)) = Some (concat_lines [] defaults)"
    using assms
    by (simp add: loadProfiles_def store_WriteFile_def store_ReadFile_def
        updateProfileList_def)
  show ?thesis
    unfolding p s by (auto simp: defaults_def profile_line_def)
qed


theorem first_run_seeding_witness:
  "store no_file = None \<and> store_writable (quiet_env []) \<and> store_readable (quiet_env [])
   \<and> profiles new_manager = Map.empty
   \<and> dom (profiles (fst (loadProfiles (quiet_env []) new_manager no_file))) =
       {''default'', ''clean''}"
proof -
  have h: "store no_file = None" "store_writable (quiet_env [])"
    "store_readable (quiet_env [])" "profiles new_manager = Map.empty"
    by (simp_all add: no_file_def quiet_env_def new_manager_def)
  note d = first_run_seeding [OF h, THEN conjunct2, THEN conjunct1]
  from h d show ?thesis by (intro conjI)
qed

text \<open>
  C4. For every content of the store file, load passes over empty lines and lines that
  begin with \<open>#\<close>, drops every line with fewer than four fields between \<open>|\<close>, and
  adds to the mapping exactly the profiles parsed from the remaining, valid lines (a
  later line of the same name replaces an earlier one); the status message and the
  error of the manager stay as they were, and the file is left as it was. (Line by
  line, this is \<open>load_lines_skip\<close> and \<open>load_lines_step\<close> above; a line that begins
  with \<open>#\<close> is not valid, so it is never parsed.)
\<close>

theorem load_valid_lines:
  assumes "store w = Some data" and "store_readable env"
  shows "profiles (fst (loadProfiles env cm w)) =
           profiles cm ++ parsed_profiles (strings_Split data newline)
       \<and> message (fst (loadProfiles env cm w)) = message cm
       \<and> err (fst (loadProfiles env cm w)) = err cm
       \<and> snd (loadProfiles env cm w) = w"
  using assms
  by (simp add: loadProfiles_def store_ReadFile_def updateProfileList_def load_lines_parsed)

theorem load_valid_lines_witness:
  "store (file_of sample_file) = Some sample_file \<and> store_readable (quiet_env [])
   \<and> profiles (fst (loadProfiles (quiet_env []) new_manager (file_of sample_file))) ''work'' =
       Some work_profile
   \<and> profiles (fst (loadProfiles (quiet_env []) new_manager (file_of sample_file))) ''home'' =
       Some home_profile
   \<and> profiles (fst (loadProfiles (quiet_env []) new_manager (file_of sample_file))) ''broken'' =
       None
   \<and> profiles (fst (loadProfiles (quiet_env []) new_manager (file_of sample_file)))
        ''# profiles'' = None"
proof -
  have h: "store (file_of sample_file) = Some sample_file" "store_readable (quiet_env [])"
    by (simp_all add: file_of_def quiet_env_def)
  have l: "strings_Split sample_file newline =
      [''# profiles'', ''work|127.0.0.1:8080|http|--a --b'', ''broken|none'', [],
       ''home|none|none|'', []]"
    by (simp add: sample_file_def newline_def)
  from load_valid_lines [OF h, of new_manager] h show ?thesis
    unfolding l
    by (simp add: new_manager_def parsed_profiles_def valid_line_def HasPrefix_def
        line_name_def parse_line_def work_profile_def home_profile_def map_add_def)
qed

text \<open>
  C10 (as amended). For every line of the store file that does not begin with \<open>#\<close>
  and splits at \<open>|\<close> into more than four fields, load does not drop the line: it stores,
  under the first field, the profile whose name, proxy and proxy type are the first
  three fields and whose flags value is exactly the fourth field; the text after the
  fourth \<open>|\<close> is discarded without any message. The entry is in the final mapping
  unless a later valid line has the same name.
\<close>

theorem load_more_than_four_fields:
  assumes stored: "store w = Some data" "store_readable env"
    and lines: "strings_Split data newline = before @ line # after"
    and no_hash: "\<not> HasPrefix line ''#''"
    and more: "4 < length (strings_Split line CHR ''|'')"
  shows "profiles (fst (loadProfiles env cm w)) =
           load_lines
             ((load_lines (profiles cm) before)
                (strings_Split line CHR ''|'' ! 0 \<mapsto>
                 \<lparr>Name = strings_Split line CHR ''|'' ! 0,
                  Proxy = strings_Split line CHR ''|'' ! 1,
                  ProxyType = strings_Split line CHR ''|'' ! 2,
                  Flags = strings_Split line CHR ''|'' ! 3\<rparr>))
             after
       \<and> (find (\<lambda>l. valid_line l \<and> line_name l = strings_Split line CHR ''|'' ! 0) after = None
            \<longrightarrow> profiles (fst (loadProfiles env cm w)) (strings_Split line CHR ''|'' ! 0) =
                Some \<lparr>Name = strings_Split line CHR ''|'' ! 0,
                      Proxy = strings_Split line CHR ''|'' ! 1,
                      ProxyType = strings_Split line CHR ''|'' ! 2,
                      Flags = strings_Split line CHR ''|'' ! 3\<rparr>)
       \<and> message (fst (loadProfiles env cm w)) = message cm
       \<and> err (fst (loadProfiles env cm w)) = err cm"
proof -
  let ?m = "load_lines (profiles cm) before"
  let ?n = "strings_Split line CHR ''|'' ! 0"
  let ?p = "\<lparr>Name = ?n, Proxy = strings_Split line CHR ''|'' ! 1,
             ProxyType = strings_Split line CHR ''|'' ! 2,
             Flags = strings_Split line CHR ''|'' ! 3\<rparr>"
  from more have ne: "line \<noteq> []" by auto
  have "profiles (fst (loadProfiles env cm w)) = load_lines (profiles cm) (before @ line # after)"
    using stored lines
    by (simp add: loadProfiles_def store_ReadFile_def updateProfileList_def)
  also have "\<dots> = load_lines ?m (line # after)"
    by (rule load_lines_append)
  also have "\<dots> = load_lines (?m(?n \<mapsto> ?p)) after"
    using ne no_hash more by (simp add: Let_def)
  finally have eq: "profiles (fst (loadProfiles env cm w)) = load_lines (?m(?n \<mapsto> ?p)) after" .
  have last: "load_lines (?m(?n \<mapsto> ?p)) after ?n = Some ?p"
    if "find (\<lambda>l. valid_line l \<and> line_name l = ?n) after = None"
    using parsed_profiles_no_line [OF that]
    by (simp add: load_lines_parsed map_add_def)
  have quiet: "message (fst (loadProfiles env cm w)) = message cm"
    "err (fst (loadProfiles env cm w)) = err cm"
    using stored by (simp_all add: loadProfiles_def store_ReadFile_def updateProfileList_def)
  from eq last quiet show ?thesis by simp
qed

theorem load_more_than_four_fields_witness:
  "store (file_of long_line_file) = Some long_line_file \<and> store_readable (quiet_env [])
   \<and> strings_Split long_line_file newline = [] @ ''work|none|none|--a|--b|rest'' # [[]]
   \<and> \<not> HasPrefix ''work|none|none|--a|--b|rest'' ''#''
   \<and> 4 < length (strings_Split ''work|none|none|--a|--b|rest'' CHR ''|'')
   \<and> find (\<lambda>l. valid_line l \<and> line_name l = ''work'') [[]] = None
   \<and> profiles (fst (loadProfiles (quiet_env []) new_manager (file_of long_line_file))) ''work'' =
       Some \<lparr>Name = ''work'', Proxy = ''none'', ProxyType = ''none'', Flags = ''--a''\<rparr>"
proof -
  have h: "store (file_of long_line_file) = Some long_line_file" "store_readable (quiet_env [])"
    by (simp_all add: file_of_def quiet_env_def)
  have l: "strings_Split long_line_file newline = [] @ ''work|none|none|--a|--b|rest'' # [[]]"
    by (simp add: long_line_file_def newline_def)
  have n: "\<not> HasPrefix ''work|none|none|--a|--b|rest'' ''#''"
    by (simp add: HasPrefix_def)
  have m: "4 < length (strings_Split ''work|none|none|--a|--b|rest'' CHR ''|'')"
    by simp
  have f: "find (\<lambda>l. valid_line l \<and> line_name l = ''work'') [[]] = None"
    by (simp add: valid_line_def)
  from load_more_than_four_fields [OF h l n m, of new_manager] h l n m f show ?thesis
    by simp
qed

text \<open>
  C10 as stated fails on a line that begins with \<open>#\<close>: it has more than four
  fields, and load passes over it as a comment.
\<close>

theorem load_comment_with_five_fields_counterexample:
  "4 < length (strings_Split ''#work|none|none|--a|--b'' CHR ''|'')
   \<and> profiles (fst (loadProfiles (quiet_env []) new_manager
        (file_of (''#work|none|none|--a|--b'' @ [newline])))) = Map.empty"
  by (simp add: loadProfiles_def store_ReadFile_def updateProfileList_def quiet_env_def
      new_manager_def file_of_def newline_def HasPrefix_def)

section \<open>Facts about the views\<close>

text \<open>
  No view but the delete confirmation and the editor's save touches the profile map,
  and these two keep the invariant \<open>names_inv\<close>: the save refuses an empty name.
\<close>

lemma profiles_update_lists [simp]:
  "profiles (fst (fst (update_mainList env msg cm w))) = profiles cm"
  "profiles (fst (fst (update_profileList env msg cm w))) = profiles cm"
  "profiles (fst (fst (update_manageList env msg cm w))) = profiles cm"
  by (simp_all add: update_mainList_def update_profileList_def update_manageList_def
      split: prod.splits)

lemma profiles_updateLists [simp]:
  "profiles (updateProfileList env cm) = profiles cm"
  "profiles (updateManageList cm) = profiles cm"
  by (simp_all add: updateProfileList_def updateManageList_def)

lemma profiles_view_main: "profiles (fst (fst (view_main env msg kt cm w))) = profiles cm"
  by (simp add: view_main_def split: option.splits)

lemma profiles_view_select_profile:
  "profiles (fst (fst (view_select_profile env msg kt cm w))) = profiles cm"
  by (simp add: view_select_profile_def split: option.splits prod.splits)

lemma profiles_view_manage: "profiles (fst (fst (view_manage env msg kt cm w))) = profiles cm"
  by (simp add: view_manage_def split: option.splits)

lemma profiles_view_select_edit:
  "profiles (fst (fst (view_select_edit env msg kt cm w))) = profiles cm"
  by (simp add: view_select_edit_def Let_def split: option.splits)

lemma profiles_view_select_delete:
  "profiles (fst (fst (view_select_delete env msg kt cm w))) = profiles cm"
  by (simp add: view_select_delete_def split: option.splits)

lemma profiles_view_select_clean:
  "profiles (fst (fst (view_select_clean env msg kt cm w))) = profiles cm"
  by (simp add: view_select_clean_def Let_def split: option.splits prod.splits sum.splits)

lemma profiles_view_text_input:
  "profiles (fst (fst (view_text_input kt ks cm w))) = profiles cm"
  by (simp add: view_text_input_def)

lemma names_inv_delete: "names_inv m \<Longrightarrow> names_inv (m(k := None))"
  by (simp add: names_inv_def keyed_by_name_def)

lemma names_inv_store:
  "names_inv m \<Longrightarrow> n \<noteq> [] \<Longrightarrow>
   names_inv (m(n \<mapsto> \<lparr>Name = n, Proxy = x, ProxyType = t, Flags = f\<rparr>))"
  by (simp add: names_inv_def keyed_by_name_def)

lemma names_inv_view_confirm_delete:
  "names_inv (profiles cm) \<Longrightarrow>
   names_inv (profiles (fst (fst (view_confirm_delete env ks cm w))))"
  by (simp add: view_confirm_delete_def Let_def names_inv_delete)

lemma names_inv_view_edit_profile:
  "names_inv (profiles cm) \<Longrightarrow>
   names_inv (profiles (fst (fst (view_edit_profile env kt ks cm w))))"
  by (simp add: view_edit_profile_def Let_def names_inv_delete names_inv_store)

lemma Update_names_inv:
  assumes "names_inv (profiles cm)"
  shows "names_inv (profiles (fst (fst (Update env msg (cm, w)))))"
proof (cases msg)
  case (WindowSizeMsg width height)
  with assms show ?thesis by (simp add: Update_def)
next
  case OtherMsg
  with assms show ?thesis by (simp add: Update_def)
next
  case (KeyMsg kt ks)
  with assms show ?thesis
    by (simp add: Update_def profiles_view_main profiles_view_select_profile
        profiles_view_manage profiles_view_select_edit profiles_view_select_delete
        profiles_view_select_clean profiles_view_text_input names_inv_view_confirm_delete
        names_inv_view_edit_profile)
qed

lemma run_names_inv:
  "names_inv (profiles (fst s)) \<Longrightarrow> names_inv (profiles (fst (run env msgs s)))"
proof (induction msgs arbitrary: s)
  case Nil
  then show ?case by simp
next
  case (Cons msg msgs)
  obtain cm w where s: "s = (cm, w)" by (cases s)
  with Cons.prems have "names_inv (profiles (fst (fst (Update env msg s))))"
    by (simp add: Update_names_inv)
  with Cons.IH show ?case by simp
qed

lemma selected_view_manage:
  "selected (fst (fst (view_manage env msg kt cm w))) = selected cm"
  by (simp add: view_manage_def update_manageList_def updateProfileList_def
      split: option.splits prod.splits)

lemmas view_defs =
  Update_def view_main_def view_select_profile_def view_manage_def view_select_edit_def
  view_select_delete_def view_confirm_delete_def view_select_clean_def view_edit_profile_def
  view_text_input_def update_mainList_def update_profileList_def update_manageList_def
  updateProfileList_def updateManageList_def SelectedItem_def list_New_def cursor_keys_def
  profile_or_zero_def edit_text_def

lemma started_eq:
  "started =
    (\<lparr>profiles = two_profiles,
      configFile = ''/home/u/.chrome_profiles/profiles.conf'',
      chromePath = ''/Applications/Chromium.app/Contents/MacOS/Chromium'',
      profileDir = ''/home/u/.chrome_profiles'',
      currentView = ''main'',
      mainList = list_New
                   [\<lparr>title = ''Launch Browser'', desc = ''Start with a profile''\<rparr>,
                    \<lparr>title = ''Manage Profiles'', desc = ''Add, edit or remove profiles''\<rparr>,
                    \<lparr>title = ''Clean Profile'', desc = ''Clear browsing data''\<rparr>,
                    \<lparr>title = ''Quit'', desc = ''Exit application''\<rparr>] 80 24,
      profileList = list_New [\<lparr>title = ''work'', desc = []\<rparr>, \<lparr>title = ''home'', desc = []\<rparr>] 80 24,
      manageList = list_New
           [\<lparr>title = ''Add New Profile'', desc = ''Create a new browser profile''\<rparr>,
            \<lparr>title = ''Edit Profile'', desc = ''Modify an existing profile''\<rparr>,
            \<lparr>title = ''Delete Profile'', desc = ''Remove a profile''\<rparr>] 80 24,
      message = [], selected = [], profileName = [], profileProxy = [], profileType = [],
      profileFlags = [], err = None\<rparr>,
     \<lparr>store = Some two_profiles_file, effects = [MkdirAll ''/home/u/.chrome_profiles'']\<rparr>)"
  by (simp add: started_def initialModel_def quiet_env_def file_of_def new_manager_def
      loadProfiles_def store_ReadFile_def updateProfileList_def updateManageList_def
      do_effect_def two_profiles_file_def newline_def HasPrefix_def Let_def
      two_profiles_def work_profile_def home_profile_def list_zero_def fun_upd_twist)

lemma after_edit_then_add:
  "run (quiet_env [''work'', ''home'']) edit_then_add started =
    (\<lparr>profiles = two_profiles,
      configFile = ''/home/u/.chrome_profiles/profiles.conf'',
      chromePath = ''/Applications/Chromium.app/Contents/MacOS/Chromium'',
      profileDir = ''/home/u/.chrome_profiles'',
      currentView = ''add_profile'',
      mainList = \<lparr>Items = Some
                   [\<lparr>title = ''Launch Browser'', desc = ''Start with a profile''\<rparr>,
                    \<lparr>title = ''Manage Profiles'', desc = ''Add, edit or remove profiles''\<rparr>,
                    \<lparr>title = ''Clean Profile'', desc = ''Clear browsing data''\<rparr>,
                    \<lparr>title = ''Quit'', desc = ''Exit application''\<rparr>],
                  Index = 1, Width = 80, Height = 24\<rparr>,
      profileList = list_New [\<lparr>title = ''work'', desc = []\<rparr>, \<lparr>title = ''home'', desc = []\<rparr>] 80 24,
      manageList = list_New
           [\<lparr>title = ''Add New Profile'', desc = ''Create a new browser profile''\<rparr>,
            \<lparr>title = ''Edit Profile'', desc = ''Modify an existing profile''\<rparr>,
            \<lparr>title = ''Delete Profile'', desc = ''Remove a profile''\<rparr>] 80 24,
      message = ''Profile 'work' updated'', selected = ''work'', profileName = [],
      profileProxy = ''none'', profileType = ''none'',
      profileFlags = ''--no-first-run --disable-features=RendererCodeIntegrity'', err = None\<rparr>,
     \<lparr>store = Some two_profiles_file, effects = [MkdirAll ''/home/u/.chrome_profiles'']\<rparr>)"
  by (simp add: started_eq edit_then_add_def view_defs quiet_env_def
      two_profiles_def work_profile_def home_profile_def saveProfiles_def store_WriteFile_def
      HasPrefix_def Let_def apostrophe_def two_profiles_file_def map_filter_simps
      profile_line_def fun_upd_twist)

lemma remove_files_fails:
  "(fst (remove_files env dir files w) \<noteq> None) =
   list_ex (\<lambda>file. RemoveAll_err env (Join env dir file) \<noteq> None) files"
  by (induction files arbitrary: w) (auto simp: Let_def split: option.splits)

lemma profileDir_initialModel:
  "profileDir (fst (initialModel env w)) = Join env (UserHomeDir env) ''.chrome_profiles''"
  by (simp add: initialModel_def Let_def loadProfiles_def updateProfileList_def
      updateManageList_def new_manager_def split: option.splits prod.splits)

section \<open>Claims about the views\<close>

text \<open>
  C5. In the editor (view \<open>edit_profile\<close> or \<open>add_profile\<close>), for every store and
  every edit buffer with a non-empty name different from \<open>originalName\<close> (the field
  \<open>selected\<close>), the Enter key (whose text is none of the digits 1 to 4) does this: if
  the new name is not a key of the store, the entry under \<open>originalName\<close> is removed,
  an entry under the new name with the buffer's four fields is inserted, and the view
  becomes \<open>main\<close>; if the new name is the key of an existing profile, nothing changes
  but the status message, which reports the collision: the store, the store file and
  the view stay as they were.
\<close>

theorem edit_save_rename:
  assumes view: "currentView cm = ''edit_profile'' \<or> currentView cm = ''add_profile''"
    and enter: "ks \<notin> {''1'', ''2'', ''3'', ''4''}"
    and name: "profileName cm \<noteq> []"
    and renamed: "profileName cm \<noteq> selected cm"
  shows "(if profileName cm \<in> dom (profiles cm)
          then fst (Update env (KeyMsg KeyEnter ks) (cm, w)) =
                 (cm\<lparr>message :=
                       ''Profile '' @ apostrophe @ profileName cm @ apostrophe @
                       '' already exists''\<rparr>, w)
          else profiles (fst (fst (Update env (KeyMsg KeyEnter ks) (cm, w)))) =
                 ((profiles cm)(selected cm := None))
                   (profileName cm \<mapsto>
                    \<lparr>Name = profileName cm, Proxy = profileProxy cm,
                     ProxyType = profileType cm, Flags = profileFlags cm\<rparr>)
               \<and> currentView (fst (fst (Update env (KeyMsg KeyEnter ks) (cm, w)))) = ''main'')"
proof -
  have u: "Update env (KeyMsg KeyEnter ks) (cm, w) = view_edit_profile env KeyEnter ks cm w"
    using view by (auto simp: Update_def)
  show ?thesis
    unfolding u using enter name renamed
    by (auto simp: view_edit_profile_def Let_def)
qed

theorem edit_save_rename_witness:
  "currentView (editing_work ''office'') = ''edit_profile''
   \<and> ''enter'' \<notin> {''1'', ''2'', ''3'', ''4''}
   \<and> profileName (editing_work ''office'') \<noteq> []
   \<and> profileName (editing_work ''office'') \<noteq> selected (editing_work ''office'')
   \<and> profileName (editing_work ''office'') \<notin> dom (profiles (editing_work ''office''))
   \<and> profiles (fst (fst (Update (quiet_env []) (KeyMsg KeyEnter ''enter'')
         (editing_work ''office'', no_file)))) ''work'' = None
   \<and> profiles (fst (fst (Update (quiet_env []) (KeyMsg KeyEnter ''enter'')
         (editing_work ''office'', no_file)))) ''office'' =
       Some \<lparr>Name = ''office'', Proxy = ''none'', ProxyType = ''none'', Flags = ''--x''\<rparr>
   \<and> currentView (fst (fst (Update (quiet_env []) (KeyMsg KeyEnter ''enter'')
         (editing_work ''office'', no_file)))) = ''main''
   \<and> profileName (editing_work ''home'') \<in> dom (profiles (editing_work ''home''))
   \<and> fst (Update (quiet_env []) (KeyMsg KeyEnter ''enter'') (editing_work ''home'', no_file)) =
       ((editing_work ''home'')\<lparr>message := ''Profile 'home' already exists''\<rparr>, no_file)"
proof -
  have v: "currentView (editing_work n) = ''edit_profile'' \<or>
           currentView (editing_work n) = ''add_profile''" for n
    by (simp add: editing_work_def)
  have e: "''enter'' \<notin> {''1'', ''2'', ''3'', ''4''}" by simp
  have o: "profileName (editing_work ''office'') \<noteq> []"
    "profileName (editing_work ''office'') \<noteq> selected (editing_work ''office'')"
    "profileName (editing_work ''office'') \<notin> dom (profiles (editing_work ''office''))"
    by (simp_all add: editing_work_def two_profiles_def)
  have h: "profileName (editing_work ''home'') \<noteq> []"
    "profileName (editing_work ''home'') \<noteq> selected (editing_work ''home'')"
    "profileName (editing_work ''home'') \<in> dom (profiles (editing_work ''home''))"
    by (simp_all add: editing_work_def two_profiles_def)
  note a = edit_save_rename [OF v e o(1) o(2), of "quiet_env []" no_file]
  note b = edit_save_rename [OF v e h(1) h(2), of "quiet_env []" no_file]
  from a o(3) have a':
    "profiles (fst (fst (Update (quiet_env []) (KeyMsg KeyEnter ''enter'')
         (editing_work ''office'', no_file)))) =
       ((profiles (editing_work ''office''))(selected (editing_work ''office'') := None))
         (profileName (editing_work ''office'') \<mapsto>
          \<lparr>Name = profileName (editing_work ''office''),
           Proxy = profileProxy (editing_work ''office''),
           ProxyType = profileType (editing_work ''office''),
           Flags = profileFlags (editing_work ''office'')\<rparr>)"
    "currentView (fst (fst (Update (quiet_env []) (KeyMsg KeyEnter ''enter'')
         (editing_work ''office'', no_file)))) = ''main''"
    by simp_all
  from b h(3) have b':
    "fst (Update (quiet_env []) (KeyMsg KeyEnter ''enter'') (editing_work ''home'', no_file)) =
       ((editing_work ''home'')\<lparr>message :=
          ''Profile '' @ apostrophe @ profileName (editing_work ''home'') @ apostrophe @
          '' already exists''\<rparr>, no_file)"
    by simp
  have w1: "profiles (fst (fst (Update (quiet_env []) (KeyMsg KeyEnter ''enter'')
         (editing_work ''office'', no_file)))) ''work'' = None"
    unfolding a'(1) by (simp add: editing_work_def)
  have w2: "profiles (fst (fst (Update (quiet_env []) (KeyMsg KeyEnter ''enter'')
         (editing_work ''office'', no_file)))) ''office'' =
       Some \<lparr>Name = ''office'', Proxy = ''none'', ProxyType = ''none'', Flags = ''--x''\<rparr>"
    unfolding a'(1) by (simp add: editing_work_def)
  have w3: "fst (Update (quiet_env []) (KeyMsg KeyEnter ''enter'') (editing_work ''home'', no_file)) =
       ((editing_work ''home'')\<lparr>message := ''Profile 'home' already exists''\<rparr>, no_file)"
    unfolding b' by (simp add: editing_work_def apostrophe_def)
  have v1: "currentView (editing_work ''office'') = ''edit_profile''"
    by (simp add: editing_work_def)
  from v1 e o a'(2) h(3) w1 w2 w3 show ?thesis by (intro conjI)
qed

text \<open>
  C6 (the code at a failing input). The claim wants \<open>originalName\<close> empty after
  \<open>Add New Profile\<close>. The program is started on a store with the profiles \<open>work\<close>
  and \<open>home\<close>; the user edits \<open>work\<close> and saves it, then chooses \<open>Add New Profile\<close>.
  The view is \<open>add_profile\<close> and the name of the buffer is empty, but \<open>selected\<close> is
  still \<open>work\<close>. When the user then types the name \<open>new\<close> and saves, the save takes
  \<open>work\<close> for the old name of a renamed profile and deletes it.
\<close>

theorem add_after_edit_keeps_selected:
  "currentView (fst (run (quiet_env [''work'', ''home'']) edit_then_add started)) = ''add_profile''
   \<and> profileName (fst (run (quiet_env [''work'', ''home'']) edit_then_add started)) = []
   \<and> selected (fst (run (quiet_env [''work'', ''home'']) edit_then_add started)) = ''work''
   \<and> profiles (fst (run (quiet_env [''work'', ''home'']) edit_then_add started)) ''work'' =
       Some work_profile
   \<and> profiles
        (fst (run (quiet_env [''work'', ''home'']) name_and_save
           (run (quiet_env [''work'', ''home'']) edit_then_add started)))
        ''work'' = None
   \<and> profiles
        (fst (run (quiet_env [''work'', ''home'']) name_and_save
           (run (quiet_env [''work'', ''home'']) edit_then_add started)))
        ''new'' =
       Some \<lparr>Name = ''new'', Proxy = ''none'', ProxyType = ''none'',
             Flags = ''--no-first-run --disable-features=RendererCodeIntegrity''\<rparr>"
  unfolding after_edit_then_add
  by (simp add: name_and_save_def view_defs quiet_env_def
      two_profiles_def saveProfiles_def store_WriteFile_def
      HasPrefix_def Let_def)

text \<open>
  C9 (the code at a failing input). The claim wants every name in the mapping
  non-empty, also after load. A store file with the line \<open>|none|none|--x\<close> makes load
  insert a profile under the empty name. (The views keep the invariant: see
  \<open>Update_names_inv\<close> above.)
\<close>

theorem load_empty_name:
  "profiles (fst (loadProfiles (quiet_env []) new_manager
      (file_of (''|none|none|--x'' @ [newline])))) [] =
   Some \<lparr>Name = [], Proxy = ''none'', ProxyType = ''none'', Flags = ''--x''\<rparr>"
  by (simp add: loadProfiles_def store_ReadFile_def updateProfileList_def quiet_env_def
      new_manager_def file_of_def newline_def HasPrefix_def)

section \<open>Claims about the subcommands\<close>

text \<open>
  C7 (as amended). For every run of one of the subcommands \<open>launch\<close>, \<open>clean\<close>,
  \<open>list\<close>, \<open>version\<close> and \<open>help\<close> whose arguments the flag library accepts, the
  exit status is 1 when the subcommand is \<open>clean\<close> and the removal of an entry of the
  profile's working directory fails, and 0 in every other case: \<open>clean\<close> on a missing
  or unreadable directory, \<open>launch\<close> whatever its result, \<open>list\<close>, \<open>version\<close> and
  \<open>help\<close>.
\<close>

theorem main_exit_status:
  assumes sub: "args ! 1 \<in> {''launch'', ''clean'', ''list'', ''version'', ''help''}"
    and len: "2 \<le> length args"
    and parsed: "args ! 1 = ''help'' \<or> flag_Parse env (args ! 1) (drop 2 args) = Inr pn"
  shows "fst (main env args w) =
          (if args ! 1 = ''clean'' \<and>
              removal_fails env (Join env (Join env (UserHomeDir env) ''.chrome_profiles'') pn)
           then 1 else 0)"
proof -
  obtain cm w' where i: "initialModel env w = (cm, w')" by (cases "initialModel env w")
  then have d: "profileDir cm = Join env (UserHomeDir env) ''.chrome_profiles''"
    using profileDir_initialModel [of env w] by simp
  show ?thesis
  proof (cases "args ! 1 = ''clean''")
    case True
    with parsed have p: "flag_Parse env ''clean'' (drop 2 args) = Inr pn" by simp
    let ?path = "Join env (profileDir cm) pn"
    show ?thesis
    proof (cases "IsNotExist env ?path")
      case True
      with \<open>args ! 1 = ''clean''\<close> len p i show ?thesis
        unfolding d [symmetric]
        by (simp add: main_def parseCommandLine_def removal_fails_def Let_def)
    next
      case False
      show ?thesis
      proof (cases "ReadDir env ?path")
        case (Inl e)
        with False \<open>args ! 1 = ''clean''\<close> len p i show ?thesis
          unfolding d [symmetric]
          by (simp add: main_def parseCommandLine_def removal_fails_def Let_def)
      next
        case (Inr files)
        obtain r w'' where rm: "remove_files env ?path files w' = (r, w'')"
          by (cases "remove_files env ?path files w'")
        with remove_files_fails [of env ?path files w'] have
          "(r \<noteq> None) =
             list_ex (\<lambda>file. RemoveAll_err env (Join env ?path file) \<noteq> None) files"
          by simp
        with Inr False \<open>args ! 1 = ''clean''\<close> len p i rm show ?thesis
          unfolding d [symmetric]
          by (cases r) (simp_all add: main_def parseCommandLine_def removal_fails_def Let_def)
      qed
    qed
  next
    case False
    with sub len parsed i show ?thesis
      by (auto simp: main_def parseCommandLine_def Let_def split: prod.splits)
  qed
qed

theorem main_exit_status_witness:
  "[''launchium'', ''clean'', ''-profile=default''] ! 1 \<in>
      {''launch'', ''clean'', ''list'', ''version'', ''help''}
   \<and> 2 \<le> length [''launchium'', ''clean'', ''-profile=default'']
   \<and> flag_Parse locked_env ([''launchium'', ''clean'', ''-profile=default''] ! 1)
        (drop 2 [''launchium'', ''clean'', ''-profile=default'']) = Inr ''default''
   \<and> removal_fails locked_env ''/home/u/.chrome_profiles/default''
   \<and> fst (main locked_env [''launchium'', ''clean'', ''-profile=default''] no_file) = 1
   \<and> fst (main (quiet_env []) [''launchium'', ''clean'', ''-profile=default''] no_file) = 0
   \<and> fst (main (quiet_env []) [''launchium'', ''list''] no_file) = 0
   \<and> fst (main (quiet_env []) [''launchium'', ''help''] no_file) = 0"
proof -
  have s: "[''launchium'', ''clean'', ''-profile=default''] ! 1 \<in>
      {''launch'', ''clean'', ''list'', ''version'', ''help''}"
    "[''launchium'', ''list''] ! 1 \<in> {''launch'', ''clean'', ''list'', ''version'', ''help''}"
    "[''launchium'', ''help''] ! 1 \<in> {''launch'', ''clean'', ''list'', ''version'', ''help''}"
    by simp_all
  have l: "2 \<le> length [''launchium'', ''clean'', ''-profile=default'']"
    "2 \<le> length [''launchium'', ''list'']" "2 \<le> length [''launchium'', ''help'']"
    by simp_all
  have p: "flag_Parse locked_env ([''launchium'', ''clean'', ''-profile=default''] ! 1)
        (drop 2 [''launchium'', ''clean'', ''-profile=default'']) = Inr ''default''"
    by (simp add: locked_env_def quiet_env_def)
  have q: "flag_Parse (quiet_env []) ([''launchium'', ''clean'', ''-profile=default''] ! 1)
        (drop 2 [''launchium'', ''clean'', ''-profile=default'']) = Inr ''default''"
    "flag_Parse (quiet_env []) ([''launchium'', ''list''] ! 1) (drop 2 [''launchium'', ''list'']) =
       Inr ''default''"
    by (simp_all add: quiet_env_def)
  have h: "[''launchium'', ''help''] ! 1 = ''help''" by simp
  have r: "removal_fails locked_env ''/home/u/.chrome_profiles/default''"
    by (simp add: removal_fails_def locked_env_def quiet_env_def)
  have n: "\<not> removal_fails (quiet_env []) ''/home/u/.chrome_profiles/default''"
    by (simp add: removal_fails_def quiet_env_def)
  have j: "Join locked_env (Join locked_env (UserHomeDir locked_env) ''.chrome_profiles'') ''default'' =
      ''/home/u/.chrome_profiles/default''"
    "Join (quiet_env []) (Join (quiet_env []) (UserHomeDir (quiet_env [])) ''.chrome_profiles'') ''default'' =
      ''/home/u/.chrome_profiles/default''"
    by (simp_all add: locked_env_def quiet_env_def)
  from main_exit_status [where w = no_file, OF s(1) l(1) disjI2 [OF p]] r
  have 1: "fst (main locked_env [''launchium'', ''clean'', ''-profile=default''] no_file) = 1"
    unfolding j by simp
  from main_exit_status [where w = no_file, OF s(1) l(1) disjI2 [OF q(1)]] n
  have 2: "fst (main (quiet_env []) [''launchium'', ''clean'', ''-profile=default''] no_file) = 0"
    unfolding j by simp
  from main_exit_status [where w = no_file, OF s(2) l(2) disjI2 [OF q(2)]]
  have 3: "fst (main (quiet_env []) [''launchium'', ''list''] no_file) = 0"
    by simp
  from main_exit_status [where w = no_file and env = "quiet_env []" and pn = "[]",
      OF s(3) l(3) disjI1 [OF h]]
  have 4: "fst (main (quiet_env []) [''launchium'', ''help''] no_file) = 0"
    by simp
  from s(1) l(1) p r 1 2 3 4 show ?thesis by (intro conjI)
qed

text \<open>
  C7 as stated fails for \<open>launch\<close>: the profile \<open>nosuch\<close> is not in the store, the
  launch fails with the message that the profile was not found, and the exit status
  is 0.
\<close>

theorem launch_missing_profile_counterexample:
  "main nosuch_env [''launchium'', ''launch'', ''-profile=nosuch''] (file_of two_profiles_file) =
     (0,
      [''Launching browser with profile: nosuch'' @ [newline],
       ''Profile 'nosuch' not found'' @ [newline]],
      \<lparr>store = Some two_profiles_file, effects = [MkdirAll ''/home/u/.chrome_profiles'']\<rparr>)"
proof -
  have "initialModel nosuch_env (file_of two_profiles_file) = started"
    by (simp add: started_def initialModel_def nosuch_env_def quiet_env_def loadProfiles_def
        store_ReadFile_def updateProfileList_def Let_def do_effect_def file_of_def)
  then show ?thesis
    by (simp add: main_def parseCommandLine_def nosuch_env_def started_eq launchBrowser_def
        two_profiles_def Println_def apostrophe_def)
qed

end
